theory Spec2Isabelle
  imports Main
begin

section \<open>Data model (src/types/api.ts)\<close>

text \<open>
  The interfaces of \<^verbatim>\<open>src/types/api.ts\<close> as records. Field names are prefixed where two
  interfaces share a name (\<^verbatim>\<open>id\<close>, \<^verbatim>\<open>name\<close>, \<^verbatim>\<open>user\<close>, \<^verbatim>\<open>error\<close>, \<^verbatim>\<open>message\<close>),
  since a record field is a global constant. An optional field (\<^verbatim>\<open>email?\<close>) is an
  \<open>option\<close>. JavaScript strings are \<open>string\<close>.
\<close>

record AuthResponse =
  token :: string
  token_type :: string
  expires_at :: string

record LoginRequest =
  req_user :: string
  req_pass :: string

record User =
  user_id :: string
  username :: string
  email :: "string option"
  roles :: "string list"

record Workspace =
  ws_id :: string
  ws_name :: string
  ws_description :: "string option"
  ws_created_at :: string
  ws_updated_at :: string

datatype SessionStatus = running | stopped | pending | error_status

record ContainerInfo =
  image :: string
  ports :: "int list"
  environment :: "(string \<times> string) list"

record Session =
  sess_id :: string
  sess_workspace_id :: string
  sess_name :: string
  sess_status :: SessionStatus
  sess_created_at :: string
  sess_updated_at :: string
  container_info :: "ContainerInfo option"

section \<open>Token Store (src/lib/cookies.ts, class TokenManager)\<close>

text \<open>
  The persisted store is the pair of cookie values that \<^verbatim>\<open>Cookies.get\<close> returns for
  \<^verbatim>\<open>COOKIE_CONFIG.TOKEN_KEY\<close> and \<^verbatim>\<open>COOKIE_CONFIG.EXPIRES_KEY\<close>; \<open>None\<close> is
  \<^verbatim>\<open>undefined\<close> (no such cookie). The cookie attributes (\<^verbatim>\<open>secure\<close>, \<^verbatim>\<open>sameSite\<close>) and the
  browser's own removal of a cookie at its \<^verbatim>\<open>expires\<close> date are not part of the model.
\<close>

record Cookies =
  raworc_auth_token :: "string option"
  raworc_token_expires :: "string option"

text \<open>
  \<^verbatim>\<open>new Date(s)\<close> is a function of the platform: it is a parameter \<open>Date\<close> of every
  operation that parses an expiry, giving the time value in milliseconds, or \<open>None\<close> for
  an \<^verbatim>\<open>Invalid Date\<close> (time value \<^verbatim>\<open>NaN\<close>). \<^verbatim>\<open>new Date()\<close> and \<^verbatim>\<open>Date.now()\<close> are the
  parameter \<open>now\<close>. A comparison \<^verbatim>\<open>a <= b\<close> of two dates compares the time values and is
  false when either is \<^verbatim>\<open>NaN\<close>.
\<close>

type_synonym DateCtor = "string \<Rightarrow> int option"

definition date_le :: "int option \<Rightarrow> int option \<Rightarrow> bool" where
  "date_le a b = (case a of None \<Rightarrow> False | Some x \<Rightarrow> (case b of None \<Rightarrow> False | Some y \<Rightarrow> x \<le> y))"

text \<open>JavaScript truthiness of \<^verbatim>\<open>string | undefined\<close>: the empty string is falsy.\<close>

definition truthy :: "string option \<Rightarrow> bool" where
  "truthy v = (case v of None \<Rightarrow> False | Some s \<Rightarrow> s \<noteq> [])"

text \<open>
  \<^verbatim>\<open>
  static setToken(token: string, expiresAt: string): void {
    const expirationDate = new Date(expiresAt);
    Cookies.set(COOKIE_CONFIG.TOKEN_KEY, token, { expires: expirationDate, ... });
    Cookies.set(COOKIE_CONFIG.EXPIRES_KEY, expiresAt, { expires: expirationDate, ... });
  }
  static clearToken(): void {
    Cookies.remove(COOKIE_CONFIG.TOKEN_KEY);
    Cookies.remove(COOKIE_CONFIG.EXPIRES_KEY);
  }
  \<close>
\<close>

definition TokenManager_setToken :: "string \<Rightarrow> string \<Rightarrow> Cookies \<Rightarrow> Cookies" where
  "TokenManager_setToken tok expiresAt c =
     c\<lparr>raworc_auth_token := Some tok, raworc_token_expires := Some expiresAt\<rparr>"

definition TokenManager_clearToken :: "Cookies \<Rightarrow> Cookies" where
  "TokenManager_clearToken c = c\<lparr>raworc_auth_token := None, raworc_token_expires := None\<rparr>"

text \<open>
  \<^verbatim>\<open>
  static getToken(): string | null {
    const token = Cookies.get(COOKIE_CONFIG.TOKEN_KEY);
    const expiresAt = Cookies.get(COOKIE_CONFIG.EXPIRES_KEY);
    if (!token || !expiresAt) { return null; }
    if (new Date(expiresAt) <= new Date()) { this.clearToken(); return null; }
    return token;
  }
  \<close>
  The function reads and may write the store: it returns the result and the store after
  the call.
\<close>

definition TokenManager_getToken :: "DateCtor \<Rightarrow> int \<Rightarrow> Cookies \<Rightarrow> string option \<times> Cookies" where
  "TokenManager_getToken Date now c =
     (case raworc_auth_token c of
        None \<Rightarrow> (None, c)
      | Some tok \<Rightarrow>
          (case raworc_token_expires c of
             None \<Rightarrow> (None, c)
           | Some expiresAt \<Rightarrow>
               if tok = [] \<or> expiresAt = [] then (None, c)
               else if date_le (Date expiresAt) (Some now) then (None, TokenManager_clearToken c)
               else (Some tok, c)))"

text \<open>\<^verbatim>\<open>static isAuthenticated(): boolean { return this.getToken() !== null; }\<close>\<close>

definition TokenManager_isAuthenticated :: "DateCtor \<Rightarrow> int \<Rightarrow> Cookies \<Rightarrow> bool \<times> Cookies" where
  "TokenManager_isAuthenticated Date now c =
     (case TokenManager_getToken Date now c of (t, c') \<Rightarrow> (t \<noteq> None, c'))"

text \<open>
  \<^verbatim>\<open>
  static getTokenExpiration(): Date | null {
    const expiresAt = Cookies.get(COOKIE_CONFIG.EXPIRES_KEY);
    return expiresAt ? new Date(expiresAt) : null;
  }
  static isTokenExpiringSoon(): boolean {
    const expiration = this.getTokenExpiration();
    if (!expiration) return false;
    const fiveMinutesFromNow = new Date(Date.now() + 5 * 60 * 1000);
    return expiration <= fiveMinutesFromNow;
  }
  \<close>
  The outer \<open>option\<close> of \<open>TokenManager_getTokenExpiration\<close> is \<^verbatim>\<open>null\<close>, the inner one
  the time value of the date.
\<close>

definition TokenManager_getTokenExpiration :: "DateCtor \<Rightarrow> Cookies \<Rightarrow> int option option" where
  "TokenManager_getTokenExpiration Date c =
     (if truthy (raworc_token_expires c)
      then (case raworc_token_expires c of None \<Rightarrow> None | Some expiresAt \<Rightarrow> Some (Date expiresAt))
      else None)"

definition TokenManager_isTokenExpiringSoon :: "DateCtor \<Rightarrow> int \<Rightarrow> Cookies \<Rightarrow> bool" where
  "TokenManager_isTokenExpiringSoon Date now c =
     (case TokenManager_getTokenExpiration Date c of
        None \<Rightarrow> False
      | Some expiration \<Rightarrow> date_le expiration (Some (now + 5 * 60 * 1000)))"

text \<open>
  \<^verbatim>\<open>
  static getAuthHeader(): string | null {
    const token = this.getToken();
    return token ? `Bearer ${token}` : null;
  }
  \<close>
\<close>

definition TokenManager_getAuthHeader :: "DateCtor \<Rightarrow> int \<Rightarrow> Cookies \<Rightarrow> string option \<times> Cookies" where
  "TokenManager_getAuthHeader Date now c =
     (case TokenManager_getToken Date now c of
        (t, c') \<Rightarrow> ((if truthy t then (case t of None \<Rightarrow> None | Some tok \<Rightarrow> Some (''Bearer '' @ tok)) else None), c'))"

text \<open>
  A sample of the platform's \<^verbatim>\<open>Date\<close> constructor on three strings, used where a
  statement is evaluated at a concrete store: two ISO timestamps with their time values in
  milliseconds, every other string an \<^verbatim>\<open>Invalid Date\<close>.
\<close>

definition sample_Date :: DateCtor where
  "sample_Date s =
     (if s = ''2030-01-01T00:00:00.000Z'' then Some 1893456000000
      else if s = ''2020-01-01T00:00:00.000Z'' then Some 1577836800000
      else None)"

definition empty_Cookies :: Cookies where
  "empty_Cookies = \<lparr>raworc_auth_token = None, raworc_token_expires = None\<rparr>"

section \<open>Auth State Controller: the reducer (src/contexts/AuthContext.tsx)\<close>

record AuthState =
  user :: "User option"
  isAuthenticated :: bool
  isLoading :: bool
  error :: "string option"

datatype AuthAction =
    AUTH_START
  | AUTH_SUCCESS User
  | AUTH_ERROR string
  | AUTH_LOGOUT
  | CLEAR_ERROR

definition initialState :: AuthState where
  "initialState = \<lparr>user = None, isAuthenticated = False, isLoading = True, error = None\<rparr>"

text \<open>
  \<^verbatim>\<open>authReducer\<close>, one equation per \<^verbatim>\<open>case\<close> of the \<^verbatim>\<open>switch\<close>; the \<^verbatim>\<open>default\<close> branch
  is unreachable for a value of type \<^verbatim>\<open>AuthAction\<close>.
\<close>

fun authReducer :: "AuthState \<Rightarrow> AuthAction \<Rightarrow> AuthState" where
  "authReducer state AUTH_START = state\<lparr>isLoading := True, error := None\<rparr>"
| "authReducer state (AUTH_SUCCESS payload) =
     state\<lparr>user := Some payload, isAuthenticated := True, isLoading := False, error := None\<rparr>"
| "authReducer state (AUTH_ERROR payload) =
     state\<lparr>user := None, isAuthenticated := False, isLoading := False, error := Some payload\<rparr>"
| "authReducer state AUTH_LOGOUT =
     state\<lparr>user := None, isAuthenticated := False, isLoading := False, error := None\<rparr>"
| "authReducer state CLEAR_ERROR = state\<lparr>error := None\<rparr>"

text \<open>
  \<^verbatim>\<open>const [state, dispatch] = useReducer(authReducer, initialState)\<close>: the state after a
  sequence of dispatched actions is the left fold of the reducer over them.
\<close>

definition dispatch_all :: "AuthState \<Rightarrow> AuthAction list \<Rightarrow> AuthState" where
  "dispatch_all state acts = foldl authReducer state acts"

definition sample_User :: User where
  "sample_User = \<lparr>user_id = ''user-1'', username = ''admin'', email = Some ''admin@example.com'',
     roles = [''admin'', ''user'']\<rparr>"

section \<open>The application state\<close>

text \<open>
  What the client code reads and writes while it runs in the browser:
  \<^item> \<open>cookies\<close>: the Token Store;
  \<^item> \<open>auth\<close>: the state held by \<^verbatim>\<open>useReducer\<close> in \<^verbatim>\<open>AuthProvider\<close>, and \<open>actions\<close>, the log
    of the actions dispatched to it, oldest first;
  \<^item> \<open>events\<close>: the names of the events dispatched on \<^verbatim>\<open>window\<close>, oldest first;
  \<^item> \<open>sent\<close>: the requests handed to the network, oldest first;
  \<^item> \<open>alerts\<close>: the messages shown by \<^verbatim>\<open>alert\<close>;
  \<^item> \<open>world\<close>: everything outside the client (the backend, the clock).
  The platform is a record of the functions the code calls but does not define.
\<close>

datatype HttpMethod = GET | POST | PUT | DELETE

datatype RequestBody =
    LoginBody LoginRequest
  | ExternalAuthBody string string
  | WorkspaceBody string "string option"
  | WorkspacePatch Workspace
  | SessionBody string SessionStatus "ContainerInfo option"

record RequestConfig =
  http_method :: HttpMethod
  url :: "string option"
  Authorization :: "string option"
  metadata_startTime :: "int option"
  body :: "RequestBody option"

record 'w App =
  cookies :: Cookies
  auth :: AuthState
  actions :: "AuthAction list"
  events :: "string list"
  sent :: "RequestConfig list"
  alerts :: "string list"
  world :: 'w

record 'w Platform =
  Date_ctor :: DateCtor
  Date_now :: "'w \<Rightarrow> int"
  String_trim :: "string \<Rightarrow> string"

text \<open>\<^verbatim>\<open>dispatch(action)\<close> of \<^verbatim>\<open>AuthProvider\<close>.\<close>

definition dispatch :: "AuthAction \<Rightarrow> 'w App \<Rightarrow> 'w App" where
  "dispatch a app = app\<lparr>auth := authReducer (auth app) a, actions := actions app @ [a]\<rparr>"

text \<open>
  \<^verbatim>\<open>window.dispatchEvent(new CustomEvent(name))\<close> runs the listeners synchronously. The one
  listener the sources register is \<^verbatim>\<open>AuthProvider\<close>'s, in its mount effect:
  \<^verbatim>\<open>
    const handleLogout = () => { dispatch({ type: 'AUTH_LOGOUT' }); };
    window.addEventListener('auth:logout', handleLogout);
  \<close>
\<close>

definition handleLogout :: "'w App \<Rightarrow> 'w App" where
  "handleLogout app = dispatch AUTH_LOGOUT app"

definition window_dispatchEvent :: "string \<Rightarrow> 'w App \<Rightarrow> 'w App" where
  "window_dispatchEvent name app =
     (let app' = app\<lparr>events := events app @ [name]\<rparr>
      in if name = ''auth:logout'' then handleLogout app' else app')"

section \<open>API Gateway Client (src/lib/api-client.ts, class RaworcApiClient)\<close>

text \<open>
  \<^verbatim>\<open>ApiError\<close> and \<^verbatim>\<open>ApiResponse<T>\<close> of \<^verbatim>\<open>src/types/api.ts\<close>. \<^verbatim>\<open>details?: any\<close> holds either the
  body of the error response or the request object.
\<close>

record ErrorData =
  data_message :: "string option"
  data_text :: string

datatype ErrorDetails = ResponseDetails ErrorData | RequestDetails string

record ApiError =
  message :: string
  code :: string
  details :: "ErrorDetails option"

record 'd ApiResponse =
  data :: "'d option"
  api_error :: "ApiError option"
  success :: bool

text \<open>
  What \<^verbatim>\<open>this.client.request\<close> (axios) settles to once the request has left the request
  interceptor: resolved with the body of a 2xx response (\<open>None\<close> when the body is empty,
  a falsy \<^verbatim>\<open>response.data\<close>), or rejected with an \<^verbatim>\<open>AxiosError\<close>, whose \<^verbatim>\<open>response\<close> is
  present when the server answered with another status, and whose \<^verbatim>\<open>request\<close> is present
  when the request was made.
\<close>

record ErrorResponse =
  status :: nat
  response_data :: "ErrorData option"

record AxiosError =
  response :: "ErrorResponse option"
  request_obj :: "string option"
  err_message :: string

datatype 'd AxiosOutcome = Resolved "'d option" | Rejected AxiosError

type_synonym ('w, 'd) Net = "'w \<Rightarrow> RequestConfig \<Rightarrow> 'd AxiosOutcome \<times> 'w"

text \<open>\<^verbatim>\<open>Number.prototype.toString()\<close> of a non-negative integer: its decimal digits.\<close>

definition digit_char :: "nat \<Rightarrow> char" where
  "digit_char d =
     (if d = 0 then CHR ''0'' else if d = 1 then CHR ''1'' else if d = 2 then CHR ''2''
      else if d = 3 then CHR ''3'' else if d = 4 then CHR ''4'' else if d = 5 then CHR ''5''
      else if d = 6 then CHR ''6'' else if d = 7 then CHR ''7'' else if d = 8 then CHR ''8''
      else CHR ''9'')"

function toString_nat :: "nat \<Rightarrow> string" where
  "toString_nat n = (if n < 10 then [digit_char n] else toString_nat (n div 10) @ [digit_char (n mod 10)])"
  by pat_completeness auto
termination
  by (relation "measure (\<lambda>n. n)") auto

text \<open>\<^verbatim>\<open>a || b\<close> on strings: \<^verbatim>\<open>a\<close> when it is truthy, else \<^verbatim>\<open>b\<close>.\<close>

definition or_else :: "string option \<Rightarrow> string \<Rightarrow> string" where
  "or_else a b = (case a of None \<Rightarrow> b | Some s \<Rightarrow> if s \<noteq> [] then s else b)"

text \<open>
  \<^verbatim>\<open>
  private transformError(error: AxiosError): ApiResponse {
    if (error.response) {
      const responseData = error.response.data as any;
      return { success: false, error: {
          message: responseData?.message || error.message || 'Server error occurred',
          code: error.response.status.toString(),
          details: error.response.data } };
    } else if (error.request) {
      return { success: false, error: {
          message: 'Network error - please check your connection',
          code: 'NETWORK_ERROR',
          details: error.request } };
    } else {
      return { success: false, error: {
          message: error.message || 'Unknown error occurred',
          code: 'UNKNOWN_ERROR' } };
    }
  }
  \<close>
\<close>

definition transformError :: "AxiosError \<Rightarrow> 'd ApiResponse" where
  "transformError err =
     (case response err of
        Some resp \<Rightarrow>
          \<lparr>data = None,
           api_error = Some
             \<lparr>message = or_else (case response_data resp of None \<Rightarrow> None | Some responseData \<Rightarrow> data_message responseData)
                          (or_else (Some (err_message err)) ''Server error occurred''),
              code = toString_nat (status resp),
              details = map_option ResponseDetails (response_data resp)\<rparr>,
           success = False\<rparr>
      | None \<Rightarrow>
          (case request_obj err of
             Some req \<Rightarrow>
               \<lparr>data = None,
                api_error = Some
                  \<lparr>message = ''Network error - please check your connection'',
                   code = ''NETWORK_ERROR'',
                   details = Some (RequestDetails req)\<rparr>,
                success = False\<rparr>
           | None \<Rightarrow>
               \<lparr>data = None,
                api_error = Some
                  \<lparr>message = or_else (Some (err_message err)) ''Unknown error occurred'',
                   code = ''UNKNOWN_ERROR'',
                   details = None\<rparr>,
                success = False\<rparr>))"

text \<open>
  \<^verbatim>\<open>String.prototype.includes\<close>: \<open>includes_str s sub\<close> holds when \<open>sub\<close> occurs in \<open>s\<close> as
  a contiguous substring.
\<close>

fun startsWith :: "string \<Rightarrow> string \<Rightarrow> bool" where
  "startsWith s [] = True"
| "startsWith [] (c # cs) = False"
| "startsWith (x # xs) (c # cs) = (x = c \<and> startsWith xs cs)"

fun includes_str :: "string \<Rightarrow> string \<Rightarrow> bool" where
  "includes_str [] sub = (sub = [])"
| "includes_str (x # xs) sub = (startsWith (x # xs) sub \<or> includes_str xs sub)"

text \<open>
  The request interceptor:
  \<^verbatim>\<open>
  (config: InternalAxiosRequestConfig) => {
    const publicEndpoints = ['/health', '/version', '/auth/internal'];
    const isPublicEndpoint = publicEndpoints.some(endpoint => config.url?.includes(endpoint));
    if (!isPublicEndpoint) {
      const authHeader = TokenManager.getAuthHeader();
      if (authHeader) { config.headers.Authorization = authHeader; }
    }
    config.metadata = { startTime: Date.now() };
    return config;
  }
  \<close>
\<close>

definition publicEndpoints :: "string list" where
  "publicEndpoints = [''/health'', ''/version'', ''/auth/internal'']"

definition isPublicEndpoint :: "RequestConfig \<Rightarrow> bool" where
  "isPublicEndpoint config =
     list_ex (\<lambda>endpoint. case url config of None \<Rightarrow> False | Some u \<Rightarrow> includes_str u endpoint)
       publicEndpoints"

definition request_interceptor :: "'w Platform \<Rightarrow> RequestConfig \<Rightarrow> 'w App \<Rightarrow> RequestConfig \<times> 'w App" where
  "request_interceptor P config app =
     (case (if isPublicEndpoint config then (config, app)
            else (case TokenManager_getAuthHeader (Date_ctor P) (Date_now P (world app)) (cookies app) of
                    (authHeader, c') \<Rightarrow>
                      (if truthy authHeader then config\<lparr>Authorization := authHeader\<rparr> else config,
                       app\<lparr>cookies := c'\<rparr>))) of
        (config', app') \<Rightarrow>
          (config'\<lparr>metadata_startTime := Some (Date_now P (world app'))\<rparr>, app'))"

text \<open>
  The response interceptor's error handler:
  \<^verbatim>\<open>
  async (error: AxiosError) => {
    if (error.response?.status === 401) {
      TokenManager.clearToken();
      window.dispatchEvent(new CustomEvent('auth:logout'));
    }
    const apiError = this.transformError(error);
    return Promise.reject(apiError);
  }
  \<close>
  It returns the value the promise is rejected with.
\<close>

definition response_error_interceptor :: "AxiosError \<Rightarrow> 'w App \<Rightarrow> 'd ApiResponse \<times> 'w App" where
  "response_error_interceptor err app =
     (transformError err,
      (if map_option status (response err) = Some 401
       then window_dispatchEvent ''auth:logout'' (app\<lparr>cookies := TokenManager_clearToken (cookies app)\<rparr>)
       else app))"

text \<open>
  \<^verbatim>\<open>
  private async request<T>(method, endpoint: string, data?: any): Promise<ApiResponse<T>> {
    try {
      const response = await this.client.request({ method, url: endpoint, data });
      return { success: true, data: response.data };
    } catch (error) {
      return error as ApiResponse<T>;
    }
  }
  \<close>
  The axios instance is created with the header \<^verbatim>\<open>Content-Type\<close> only, so the
  configuration enters the request interceptor without an \<^verbatim>\<open>Authorization\<close> header. The
  request is handed to the network once; \<open>net\<close> gives what it settles to and the world
  after it. A rejection passes through the response interceptor's error handler and is
  caught by \<^verbatim>\<open>catch\<close>.
\<close>

definition request :: "'w Platform \<Rightarrow> ('w, 'd) Net \<Rightarrow> HttpMethod \<Rightarrow> string \<Rightarrow> RequestBody option \<Rightarrow> 'w App \<Rightarrow> 'd ApiResponse \<times> 'w App" where
  "request P net m endpoint payload app =
     (case request_interceptor P
             \<lparr>http_method = m, url = Some endpoint, Authorization = None,
              metadata_startTime = None, body = payload\<rparr> app of
        (config, app1) \<Rightarrow>
          (case net (world app1) config of
             (outcome, w') \<Rightarrow>
               (case outcome of
                  Resolved d \<Rightarrow>
                    (\<lparr>data = d, api_error = None, success = True\<rparr>,
                     app1\<lparr>sent := sent app1 @ [config], world := w'\<rparr>)
                | Rejected err \<Rightarrow>
                    response_error_interceptor err (app1\<lparr>sent := sent app1 @ [config], world := w'\<rparr>))))"

text \<open>
  \<^verbatim>\<open>response.success && response.data\<close>, the test every caller applies to a result: the data
  when the call succeeded and the data is truthy, else nothing.
\<close>

definition success_and_data :: "'d ApiResponse \<Rightarrow> 'd option" where
  "success_and_data resp = (if success resp then data resp else None)"

text \<open>\<^verbatim>\<open>response.error?.message\<close>.\<close>

definition error_message :: "'d ApiResponse \<Rightarrow> string option" where
  "error_message resp = map_option message (api_error resp)"

text \<open>
  The public methods. Each is one call of \<^verbatim>\<open>this.request\<close>; \<^verbatim>\<open>login\<close> also stores the
  token:
  \<^verbatim>\<open>
  async login(credentials: LoginRequest): Promise<ApiResponse<AuthResponse>> {
    const response = await this.request<AuthResponse>('POST', '/auth/internal', credentials);
    if (response.success && response.data) {
      TokenManager.setToken(response.data.token, response.data.expires_at);
    }
    return response;
  }
  \<close>
\<close>

definition apiClient_login :: "'w Platform \<Rightarrow> ('w, AuthResponse) Net \<Rightarrow> LoginRequest \<Rightarrow> 'w App \<Rightarrow> AuthResponse ApiResponse \<times> 'w App" where
  "apiClient_login P net credentials app =
     (case request P net POST ''/auth/internal'' (Some (LoginBody credentials)) app of
        (resp, app') \<Rightarrow>
          (resp,
           (case success_and_data resp of
              Some d \<Rightarrow> app'\<lparr>cookies := TokenManager_setToken (token d) (expires_at d) (cookies app')\<rparr>
            | None \<Rightarrow> app')))"

definition apiClient_externalAuth :: "'w Platform \<Rightarrow> ('w, AuthResponse) Net \<Rightarrow> string \<Rightarrow> string \<Rightarrow> 'w App \<Rightarrow> AuthResponse ApiResponse \<times> 'w App" where
  "apiClient_externalAuth P net provider tok app =
     request P net POST ''/auth/external'' (Some (ExternalAuthBody provider tok)) app"

definition apiClient_getCurrentUser :: "'w Platform \<Rightarrow> ('w, User) Net \<Rightarrow> 'w App \<Rightarrow> User ApiResponse \<times> 'w App" where
  "apiClient_getCurrentUser P net app = request P net GET ''/auth/me'' None app"

text \<open>
  \<^verbatim>\<open>
  logout(): void {
    TokenManager.clearToken();
    window.dispatchEvent(new CustomEvent('auth:logout'));
  }
  \<close>
\<close>

definition apiClient_logout :: "'w App \<Rightarrow> 'w App" where
  "apiClient_logout app =
     window_dispatchEvent ''auth:logout'' (app\<lparr>cookies := TokenManager_clearToken (cookies app)\<rparr>)"

definition apiClient_healthCheck :: "'w Platform \<Rightarrow> ('w, string \<times> string) Net \<Rightarrow> 'w App \<Rightarrow> (string \<times> string) ApiResponse \<times> 'w App" where
  "apiClient_healthCheck P net app = request P net GET ''/health'' None app"

definition apiClient_getVersion :: "'w Platform \<Rightarrow> ('w, string \<times> string) Net \<Rightarrow> 'w App \<Rightarrow> (string \<times> string) ApiResponse \<times> 'w App" where
  "apiClient_getVersion P net app = request P net GET ''/version'' None app"

definition apiClient_getWorkspaces :: "'w Platform \<Rightarrow> ('w, Workspace list) Net \<Rightarrow> 'w App \<Rightarrow> Workspace list ApiResponse \<times> 'w App" where
  "apiClient_getWorkspaces P net app = request P net GET ''/workspaces'' None app"

definition apiClient_getWorkspace :: "'w Platform \<Rightarrow> ('w, Workspace) Net \<Rightarrow> string \<Rightarrow> 'w App \<Rightarrow> Workspace ApiResponse \<times> 'w App" where
  "apiClient_getWorkspace P net wid app = request P net GET (''/workspaces/'' @ wid) None app"

definition apiClient_createWorkspace :: "'w Platform \<Rightarrow> ('w, Workspace) Net \<Rightarrow> string \<Rightarrow> string option \<Rightarrow> 'w App \<Rightarrow> Workspace ApiResponse \<times> 'w App" where
  "apiClient_createWorkspace P net nm descr app =
     request P net POST ''/workspaces'' (Some (WorkspaceBody nm descr)) app"

definition apiClient_updateWorkspace :: "'w Platform \<Rightarrow> ('w, Workspace) Net \<Rightarrow> string \<Rightarrow> Workspace \<Rightarrow> 'w App \<Rightarrow> Workspace ApiResponse \<times> 'w App" where
  "apiClient_updateWorkspace P net wid workspace app =
     request P net PUT (''/workspaces/'' @ wid) (Some (WorkspacePatch workspace)) app"

definition apiClient_deleteWorkspace :: "'w Platform \<Rightarrow> ('w, unit) Net \<Rightarrow> string \<Rightarrow> 'w App \<Rightarrow> unit ApiResponse \<times> 'w App" where
  "apiClient_deleteWorkspace P net wid app = request P net DELETE (''/workspaces/'' @ wid) None app"

definition apiClient_getSessions :: "'w Platform \<Rightarrow> ('w, Session list) Net \<Rightarrow> string \<Rightarrow> 'w App \<Rightarrow> Session list ApiResponse \<times> 'w App" where
  "apiClient_getSessions P net workspaceId app =
     request P net GET (''/workspaces/'' @ workspaceId @ ''/sessions'') None app"

definition apiClient_getSession :: "'w Platform \<Rightarrow> ('w, Session) Net \<Rightarrow> string \<Rightarrow> string \<Rightarrow> 'w App \<Rightarrow> Session ApiResponse \<times> 'w App" where
  "apiClient_getSession P net workspaceId sessionId app =
     request P net GET (''/workspaces/'' @ workspaceId @ ''/sessions/'' @ sessionId) None app"

definition apiClient_createSession :: "'w Platform \<Rightarrow> ('w, Session) Net \<Rightarrow> string \<Rightarrow> string \<Rightarrow> SessionStatus \<Rightarrow> ContainerInfo option \<Rightarrow> 'w App \<Rightarrow> Session ApiResponse \<times> 'w App" where
  "apiClient_createSession P net workspaceId nm st ci app =
     request P net POST (''/workspaces/'' @ workspaceId @ ''/sessions'') (Some (SessionBody nm st ci)) app"

definition apiClient_startSession :: "'w Platform \<Rightarrow> ('w, Session) Net \<Rightarrow> string \<Rightarrow> string \<Rightarrow> 'w App \<Rightarrow> Session ApiResponse \<times> 'w App" where
  "apiClient_startSession P net workspaceId sessionId app =
     request P net POST (''/workspaces/'' @ workspaceId @ ''/sessions/'' @ sessionId @ ''/start'') None app"

definition apiClient_stopSession :: "'w Platform \<Rightarrow> ('w, Session) Net \<Rightarrow> string \<Rightarrow> string \<Rightarrow> 'w App \<Rightarrow> Session ApiResponse \<times> 'w App" where
  "apiClient_stopSession P net workspaceId sessionId app =
     request P net POST (''/workspaces/'' @ workspaceId @ ''/sessions/'' @ sessionId @ ''/stop'') None app"

definition apiClient_deleteSession :: "'w Platform \<Rightarrow> ('w, unit) Net \<Rightarrow> string \<Rightarrow> string \<Rightarrow> 'w App \<Rightarrow> unit ApiResponse \<times> 'w App" where
  "apiClient_deleteSession P net workspaceId sessionId app =
     request P net DELETE (''/workspaces/'' @ workspaceId @ ''/sessions/'' @ sessionId) None app"

section \<open>Auth State Controller: the provider (src/contexts/AuthContext.tsx)\<close>

text \<open>
  \<^verbatim>\<open>
  const login = async (credentials: LoginRequest): Promise<boolean> => {
    dispatch({ type: 'AUTH_START' });
    try {
      const response = await apiClient.login(credentials);
      if (response.success && response.data) {
        const userResponse = await apiClient.getCurrentUser();
        if (userResponse.success && userResponse.data) {
          dispatch({ type: 'AUTH_SUCCESS', payload: userResponse.data });
          return true;
        } else {
          dispatch({ type: 'AUTH_ERROR', payload: 'Failed to get user information' });
          return false;
        }
      } else {
        dispatch({ type: 'AUTH_ERROR', payload: response.error?.message || 'Login failed' });
        return false;
      }
    } catch (error) {
      dispatch({ type: 'AUTH_ERROR', payload: 'Login request failed' });
      return false;
    }
  };
  \<close>
  The methods of the client return a result and raise nothing (\<open>request\<close> catches every
  rejection), so the \<^verbatim>\<open>catch\<close> branches of the provider have no counterpart here.
\<close>

definition AuthProvider_login :: "'w Platform \<Rightarrow> ('w, AuthResponse) Net \<Rightarrow> ('w, User) Net \<Rightarrow> LoginRequest \<Rightarrow> 'w App \<Rightarrow> bool \<times> 'w App" where
  "AuthProvider_login P net_auth net_user credentials app =
     (case apiClient_login P net_auth credentials (dispatch AUTH_START app) of
        (resp, app1) \<Rightarrow>
          (case success_and_data resp of
             Some d \<Rightarrow>
               (case apiClient_getCurrentUser P net_user app1 of
                  (userResponse, app2) \<Rightarrow>
                    (case success_and_data userResponse of
                       Some u \<Rightarrow> (True, dispatch (AUTH_SUCCESS u) app2)
                     | None \<Rightarrow> (False, dispatch (AUTH_ERROR ''Failed to get user information'') app2)))
           | None \<Rightarrow> (False, dispatch (AUTH_ERROR (or_else (error_message resp) ''Login failed'')) app1)))"

text \<open>
  \<^verbatim>\<open>
  const checkAuth = async (): Promise<void> => {
    dispatch({ type: 'AUTH_START' });
    try {
      if (!TokenManager.isAuthenticated()) { dispatch({ type: 'AUTH_LOGOUT' }); return; }
      const response = await apiClient.getCurrentUser();
      if (response.success && response.data) {
        dispatch({ type: 'AUTH_SUCCESS', payload: response.data });
      } else {
        TokenManager.clearToken();
        dispatch({ type: 'AUTH_ERROR', payload: response.error?.message || 'Authentication failed' });
      }
    } catch (error) { ... }
  };
  \<close>
\<close>

definition AuthProvider_checkAuth :: "'w Platform \<Rightarrow> ('w, User) Net \<Rightarrow> 'w App \<Rightarrow> 'w App" where
  "AuthProvider_checkAuth P net_user app =
     (let app0 = dispatch AUTH_START app in
      case TokenManager_isAuthenticated (Date_ctor P) (Date_now P (world app0)) (cookies app0) of
        (authed, c') \<Rightarrow>
          if \<not> authed then dispatch AUTH_LOGOUT (app0\<lparr>cookies := c'\<rparr>)
          else
            (case apiClient_getCurrentUser P net_user (app0\<lparr>cookies := c'\<rparr>) of
               (resp, app1) \<Rightarrow>
                 (case success_and_data resp of
                    Some u \<Rightarrow> dispatch (AUTH_SUCCESS u) app1
                  | None \<Rightarrow>
                      dispatch (AUTH_ERROR (or_else (error_message resp) ''Authentication failed''))
                        (app1\<lparr>cookies := TokenManager_clearToken (cookies app1)\<rparr>))))"

text \<open>
  \<^verbatim>\<open>
  const logout = (): void => { TokenManager.clearToken(); dispatch({ type: 'AUTH_LOGOUT' }); };
  const clearError = (): void => { dispatch({ type: 'CLEAR_ERROR' }); };
  \<close>
\<close>

definition AuthProvider_logout :: "'w App \<Rightarrow> 'w App" where
  "AuthProvider_logout app = dispatch AUTH_LOGOUT (app\<lparr>cookies := TokenManager_clearToken (cookies app)\<rparr>)"

definition AuthProvider_clearError :: "'w App \<Rightarrow> 'w App" where
  "AuthProvider_clearError app = dispatch CLEAR_ERROR app"

text \<open>
  The periodic check, set up in the provider's mount effect:
  \<^verbatim>\<open>
  const [state, dispatch] = useReducer(authReducer, initialState);
  ...
  useEffect(() => {
    checkAuth();
    ...
    const tokenCheckInterval = setInterval(() => {
      if (TokenManager.isTokenExpiringSoon()) {
        console.warn('Token expiring soon, consider refreshing');
      }
      if (!TokenManager.isAuthenticated() && state.isAuthenticated) {
        dispatch({ type: 'AUTH_LOGOUT' });
      }
    }, 60000);
    return () => { ...; clearInterval(tokenCheckInterval); };
  }, []);
  \<close>
  \<open>tokenCheck\<close> is the body of the interval callback, with the \<^verbatim>\<open>state\<close> its closure
  refers to as an argument; the warning has no effect on any state. The effect has the
  empty dependency list \<^verbatim>\<open>[]\<close>: React runs it once, after the first render, and the
  callback it creates is the one \<^verbatim>\<open>setInterval\<close> keeps calling. In that render
  \<^verbatim>\<open>state\<close> is what \<^verbatim>\<open>useReducer\<close> returns first, \<open>initialState\<close>; a later render binds
  a new \<^verbatim>\<open>state\<close> constant, which the callback of the first render does not see. So every
  tick of the interval is \<open>tokenCheck\<close> at \<open>initialState\<close>, whatever the provider's
  current state \<open>auth app\<close> is.
\<close>

definition tokenCheck :: "'w Platform \<Rightarrow> AuthState \<Rightarrow> 'w App \<Rightarrow> 'w App" where
  "tokenCheck P state app =
     (case TokenManager_isAuthenticated (Date_ctor P) (Date_now P (world app)) (cookies app) of
        (authed, c') \<Rightarrow>
          if \<not> authed \<and> isAuthenticated state then dispatch AUTH_LOGOUT (app\<lparr>cookies := c'\<rparr>)
          else app\<lparr>cookies := c'\<rparr>)"

definition tokenCheckInterval_tick :: "'w Platform \<Rightarrow> 'w App \<Rightarrow> 'w App" where
  "tokenCheckInterval_tick P app = tokenCheck P initialState app"

section \<open>Session list controller (src/components/sessions/SessionManager.tsx)\<close>

record SessionManagerState =
  sessions :: "Session list"
  sm_loading :: bool
  sm_error :: "string option"
  sm_showCreateModal :: bool
  sm_refreshing :: bool

text \<open>
  \<^verbatim>\<open>
  const loadSessions = async (silent = false) => {
    if (!workspace) return;
    try {
      if (!silent) { setError(null); }
      const response = await apiClient.getSessions(workspace.id);
      if (response.success && response.data) {
        setSessions(response.data);
      } else {
        if (!silent) { setError(response.error?.message || 'Failed to load sessions'); }
      }
    } catch (err) {
      if (!silent) { setError('Failed to load sessions'); }
    } finally {
      setLoading(false);
    }
  };
  \<close>
  \<open>workspace\<close> is the component's prop.
\<close>

definition loadSessions :: "'w Platform \<Rightarrow> ('w, Session list) Net \<Rightarrow> Workspace option \<Rightarrow> bool \<Rightarrow> SessionManagerState \<times> 'w App \<Rightarrow> SessionManagerState \<times> 'w App" where
  "loadSessions P net workspace silent st =
     (case workspace of
        None \<Rightarrow> st
      | Some ws \<Rightarrow>
          (case st of
             (s, app) \<Rightarrow>
               (let s1 = (if \<not> silent then s\<lparr>sm_error := None\<rparr> else s) in
                case apiClient_getSessions P net (ws_id ws) app of
                  (resp, app') \<Rightarrow>
                    ((case success_and_data resp of
                        Some d \<Rightarrow> s1\<lparr>sessions := d\<rparr>
                      | None \<Rightarrow>
                          if \<not> silent
                          then s1\<lparr>sm_error := Some (or_else (error_message resp) ''Failed to load sessions'')\<rparr>
                          else s1)\<lparr>sm_loading := False\<rparr>,
                     app'))))"

text \<open>
  \<^verbatim>\<open>
  const handleSessionCreated = (newSession: Session) => {
    setSessions(prev => [...prev, newSession]);
    setShowCreateModal(false);
  };
  const handleSessionUpdated = (updatedSession: Session) => {
    setSessions(prev => prev.map(session =>
      session.id === updatedSession.id ? updatedSession : session));
  };
  const handleSessionDeleted = (deletedSessionId: string) => {
    setSessions(prev => prev.filter(session => session.id !== deletedSessionId));
  };
  \<close>
\<close>

definition handleSessionCreated :: "Session \<Rightarrow> SessionManagerState \<Rightarrow> SessionManagerState" where
  "handleSessionCreated newSession s = s\<lparr>sessions := sessions s @ [newSession], sm_showCreateModal := False\<rparr>"

definition handleSessionUpdated :: "Session \<Rightarrow> SessionManagerState \<Rightarrow> SessionManagerState" where
  "handleSessionUpdated updatedSession s =
     s\<lparr>sessions := map (\<lambda>session. if sess_id session = sess_id updatedSession then updatedSession else session)
                       (sessions s)\<rparr>"

definition handleSessionDeleted :: "string \<Rightarrow> SessionManagerState \<Rightarrow> SessionManagerState" where
  "handleSessionDeleted deletedSessionId s =
     s\<lparr>sessions := filter (\<lambda>session. sess_id session \<noteq> deletedSessionId) (sessions s)\<rparr>"

text \<open>
  \<^verbatim>\<open>
  const handleStartAll = async () => {
    if (!workspace) return;
    const stoppedSessions = sessions.filter(session => session.status === 'stopped');
    for (const session of stoppedSessions) {
      try {
        const response = await apiClient.startSession(workspace.id, session.id);
        if (response.success && response.data) { handleSessionUpdated(response.data); }
      } catch (error) { console.error(...); }
    }
  };
  \<close>
  \<^verbatim>\<open>handleStopAll\<close> is the same with \<^verbatim>\<open>'running'\<close> and \<^verbatim>\<open>apiClient.stopSession\<close>. The loop
  is a recursion over the filtered list; \<open>call\<close> is the client method it awaits.
\<close>

fun forEach_session :: "(string \<Rightarrow> 'w App \<Rightarrow> Session ApiResponse \<times> 'w App) \<Rightarrow> Session list \<Rightarrow> SessionManagerState \<times> 'w App \<Rightarrow> SessionManagerState \<times> 'w App" where
  "forEach_session call [] st = st"
| "forEach_session call (session # rest) st =
     (case st of
        (s, app) \<Rightarrow>
          (case call (sess_id session) app of
             (resp, app') \<Rightarrow>
               forEach_session call rest
                 ((case success_and_data resp of
                     Some d \<Rightarrow> handleSessionUpdated d s
                   | None \<Rightarrow> s),
                  app')))"

definition handleStartAll :: "'w Platform \<Rightarrow> ('w, Session) Net \<Rightarrow> Workspace option \<Rightarrow> SessionManagerState \<times> 'w App \<Rightarrow> SessionManagerState \<times> 'w App" where
  "handleStartAll P net workspace st =
     (case workspace of
        None \<Rightarrow> st
      | Some ws \<Rightarrow>
          forEach_session (apiClient_startSession P net (ws_id ws))
            (filter (\<lambda>session. sess_status session = stopped) (sessions (fst st))) st)"

definition handleStopAll :: "'w Platform \<Rightarrow> ('w, Session) Net \<Rightarrow> Workspace option \<Rightarrow> SessionManagerState \<times> 'w App \<Rightarrow> SessionManagerState \<times> 'w App" where
  "handleStopAll P net workspace st =
     (case workspace of
        None \<Rightarrow> st
      | Some ws \<Rightarrow>
          forEach_session (apiClient_stopSession P net (ws_id ws))
            (filter (\<lambda>session. sess_status session = running) (sessions (fst st))) st)"

section \<open>Workspace list controller (src/components/workspaces)\<close>

record WorkspaceListState =
  workspaces :: "Workspace list"
  wl_loading :: bool
  wl_error :: "string option"
  wl_showCreateModal :: bool
  wl_refreshing :: bool

text \<open>
  \<^verbatim>\<open>WorkspaceList.tsx\<close>:
  \<^verbatim>\<open>
  const loadWorkspaces = async () => {
    try {
      setError(null);
      const response = await apiClient.getWorkspaces();
      if (response.success && response.data) {
        setWorkspaces(response.data);
      } else {
        setError(response.error?.message || 'Failed to load workspaces');
      }
    } catch (err) { setError('Failed to load workspaces'); }
    finally { setLoading(false); }
  };
  \<close>
\<close>

definition loadWorkspaces :: "'w Platform \<Rightarrow> ('w, Workspace list) Net \<Rightarrow> WorkspaceListState \<times> 'w App \<Rightarrow> WorkspaceListState \<times> 'w App" where
  "loadWorkspaces P net st =
     (case st of
        (s, app) \<Rightarrow>
          (let s1 = s\<lparr>wl_error := None\<rparr> in
           case apiClient_getWorkspaces P net app of
             (resp, app') \<Rightarrow>
               ((case success_and_data resp of
                   Some d \<Rightarrow> s1\<lparr>workspaces := d\<rparr>
                 | None \<Rightarrow> s1\<lparr>wl_error := Some (or_else (error_message resp) ''Failed to load workspaces'')\<rparr>)
                  \<lparr>wl_loading := False\<rparr>,
                app')))"

text \<open>
  \<^verbatim>\<open>
  const handleWorkspaceCreated = (newWorkspace: Workspace) => {
    setWorkspaces(prev => [...prev, newWorkspace]);
    setShowCreateModal(false);
    onWorkspaceChange?.();
  };
  const handleWorkspaceUpdated = (updatedWorkspace: Workspace) => {
    setWorkspaces(prev => prev.map(workspace =>
      workspace.id === updatedWorkspace.id ? updatedWorkspace : workspace));
    onWorkspaceChange?.();
  };
  const handleWorkspaceDeleted = (deletedWorkspaceId: string) => {
    setWorkspaces(prev => prev.filter(workspace => workspace.id !== deletedWorkspaceId));
    onWorkspaceChange?.();
  };
  \<close>
  \<^verbatim>\<open>onWorkspaceChange\<close> is an optional callback of the parent; it does not touch the list.
\<close>

definition handleWorkspaceCreated :: "Workspace \<Rightarrow> WorkspaceListState \<Rightarrow> WorkspaceListState" where
  "handleWorkspaceCreated newWorkspace s =
     s\<lparr>workspaces := workspaces s @ [newWorkspace], wl_showCreateModal := False\<rparr>"

definition handleWorkspaceUpdated :: "Workspace \<Rightarrow> WorkspaceListState \<Rightarrow> WorkspaceListState" where
  "handleWorkspaceUpdated updatedWorkspace s =
     s\<lparr>workspaces := map (\<lambda>workspace. if ws_id workspace = ws_id updatedWorkspace then updatedWorkspace else workspace)
                         (workspaces s)\<rparr>"

definition handleWorkspaceDeleted :: "string \<Rightarrow> WorkspaceListState \<Rightarrow> WorkspaceListState" where
  "handleWorkspaceDeleted deletedWorkspaceId s =
     s\<lparr>workspaces := filter (\<lambda>workspace. ws_id workspace \<noteq> deletedWorkspaceId) (workspaces s)\<rparr>"

text \<open>
  \<^verbatim>\<open>CreateWorkspaceModal.tsx\<close>. \<^verbatim>\<open>errors\<close> is a \<^verbatim>\<open>Record<string, string>\<close>: an association
  list, in the order the keys are set.
  \<^verbatim>\<open>
  const validateForm = (): boolean => {
    const newErrors: Record<string, string> = {};
    if (!formData.name.trim()) {
      newErrors.name = 'Workspace name is required';
    } else if (formData.name.length < 3) {
      newErrors.name = 'Workspace name must be at least 3 characters';
    } else if (formData.name.length > 50) {
      newErrors.name = 'Workspace name must be less than 50 characters';
    }
    if (formData.description && formData.description.length > 200) {
      newErrors.description = 'Description must be less than 200 characters';
    }
    setErrors(newErrors);
    return Object.keys(newErrors).length === 0;
  };
  \<close>
\<close>

record CreateWorkspaceModalState =
  formData_name :: string
  formData_description :: string
  cm_loading :: bool
  cm_errors :: "(string \<times> string) list"

definition validateForm :: "'w Platform \<Rightarrow> CreateWorkspaceModalState \<Rightarrow> bool \<times> CreateWorkspaceModalState" where
  "validateForm P m =
     (let newErrors =
            (if String_trim P (formData_name m) = [] then [(''name'', ''Workspace name is required'')]
             else if length (formData_name m) < 3
               then [(''name'', ''Workspace name must be at least 3 characters'')]
             else if length (formData_name m) > 50
               then [(''name'', ''Workspace name must be less than 50 characters'')]
             else [])
            @ (if formData_description m \<noteq> [] \<and> length (formData_description m) > 200
               then [(''description'', ''Description must be less than 200 characters'')]
               else [])
      in (newErrors = [], m\<lparr>cm_errors := newErrors\<rparr>))"

text \<open>
  \<^verbatim>\<open>
  const handleSubmit = async (e: React.FormEvent) => {
    e.preventDefault();
    if (!validateForm()) { return; }
    setLoading(true);
    try {
      const response = await apiClient.createWorkspace({
        name: formData.name.trim(),
        description: formData.description.trim() || undefined,
      });
      if (response.success && response.data) {
        onSuccess(response.data);
      } else {
        setErrors({ submit: response.error?.message || 'Failed to create workspace' });
      }
    } catch (error) { ... } finally { setLoading(false); }
  };
  \<close>
  \<^verbatim>\<open>onSuccess\<close> is \<^verbatim>\<open>handleWorkspaceCreated\<close> of the list that renders the modal.
\<close>

definition CreateWorkspaceModal_handleSubmit :: "'w Platform \<Rightarrow> ('w, Workspace) Net \<Rightarrow> CreateWorkspaceModalState \<times> WorkspaceListState \<times> 'w App \<Rightarrow> CreateWorkspaceModalState \<times> WorkspaceListState \<times> 'w App" where
  "CreateWorkspaceModal_handleSubmit P net st =
     (case st of
        (m, wl, app) \<Rightarrow>
          (case validateForm P m of
             (valid, m1) \<Rightarrow>
               if \<not> valid then (m1, wl, app)
               else
                 (case apiClient_createWorkspace P net (String_trim P (formData_name m))
                         (if String_trim P (formData_description m) \<noteq> []
                          then Some (String_trim P (formData_description m)) else None) app of
                    (resp, app') \<Rightarrow>
                      (case success_and_data resp of
                         Some d \<Rightarrow> (m1\<lparr>cm_loading := False\<rparr>, handleWorkspaceCreated d wl, app')
                       | None \<Rightarrow>
                           (m1\<lparr>cm_errors := [(''submit'', or_else (error_message resp) ''Failed to create workspace'')],
                               cm_loading := False\<rparr>,
                            wl, app')))))"

text \<open>
  \<^verbatim>\<open>WorkspaceCard.tsx\<close>; \<open>confirmed\<close> is the user's answer to \<^verbatim>\<open>confirm(...)\<close>, \<^verbatim>\<open>onDelete\<close> is
  \<^verbatim>\<open>handleWorkspaceDeleted\<close> of the list that renders the card.
  \<^verbatim>\<open>
  const handleDelete = async () => {
    if (!confirm(`Are you sure you want to delete "${workspace.name}"? ...`)) { return; }
    setIsDeleting(true);
    try {
      const response = await apiClient.deleteWorkspace(workspace.id);
      if (response.success) {
        onDelete(workspace.id);
      } else {
        alert(response.error?.message || 'Failed to delete workspace');
      }
    } catch (error) { alert('Failed to delete workspace'); }
    finally { setIsDeleting(false); setShowMenu(false); }
  };
  \<close>
\<close>

record WorkspaceCardState =
  showMenu :: bool
  isDeleting :: bool

definition WorkspaceCard_handleDelete :: "'w Platform \<Rightarrow> ('w, unit) Net \<Rightarrow> bool \<Rightarrow> Workspace \<Rightarrow> WorkspaceCardState \<times> WorkspaceListState \<times> 'w App \<Rightarrow> WorkspaceCardState \<times> WorkspaceListState \<times> 'w App" where
  "WorkspaceCard_handleDelete P net confirmed workspace st =
     (case st of
        (crd, wl, app) \<Rightarrow>
          if \<not> confirmed then (crd, wl, app)
          else
            (case apiClient_deleteWorkspace P net (ws_id workspace) app of
               (resp, app') \<Rightarrow>
                 if success resp
                 then (crd\<lparr>isDeleting := False, showMenu := False\<rparr>,
                       handleWorkspaceDeleted (ws_id workspace) wl, app')
                 else (crd\<lparr>isDeleting := False, showMenu := False\<rparr>, wl,
                       app'\<lparr>alerts := alerts app' @ [or_else (error_message resp) ''Failed to delete workspace'']\<rparr>)))"

section \<open>The mock backend (mock-server.js)\<close>

text \<open>
  The state of the mock server is its two variables, \<^verbatim>\<open>workspaces\<close> (an array) and
  \<^verbatim>\<open>sessions\<close> (an object from workspace id to array). A handler is given the route
  parameters and the request body, and returns what the client's request settles to (a
  2xx answer resolves with the body, any other status rejects with the response) and the
  state after it. \<open>toISO\<close> is \<^verbatim>\<open>Date.prototype.toISOString\<close> and the integer arguments are the
  readings of the clock, one for each \<^verbatim>\<open>Date.now()\<close> or \<^verbatim>\<open>new Date()\<close> in the handler.
\<close>

record MockServer =
  mock_workspaces :: "Workspace list"
  mock_sessions :: "string \<rightharpoonup> Session list"

text \<open>The axios error for an answer with a status outside 2xx and the body \<^verbatim>\<open>{ message }\<close>.\<close>

definition status_error :: "nat \<Rightarrow> string \<Rightarrow> AxiosError" where
  "status_error st msg =
     \<lparr>response = Some \<lparr>status = st, response_data = Some \<lparr>data_message = Some msg, data_text = []\<rparr>\<rparr>,
      request_obj = Some ''XMLHttpRequest'',
      err_message = ''Request failed with status code '' @ toString_nat st\<rparr>"

text \<open>
  \<^verbatim>\<open>
  app.post('/api/v0/workspaces', (req, res) => {
    const newWorkspace = {
      id: `ws-${Date.now()}`,
      ...req.body,
      created_at: new Date().toISOString(),
      updated_at: new Date().toISOString()
    };
    workspaces.push(newWorkspace);
    res.json(newWorkspace);
  });
  app.delete('/api/v0/workspaces/:id', (req, res) => {
    workspaces = workspaces.filter(ws => ws.id !== req.params.id);
    res.json({ success: true });
  });
  \<close>
  The body is the one \<^verbatim>\<open>apiClient.createWorkspace\<close> sends, \<^verbatim>\<open>{ name, description? }\<close>; it
  has no \<^verbatim>\<open>id\<close>, so the spread leaves the server's \<^verbatim>\<open>id\<close> in place.
\<close>

definition mock_post_workspaces :: "(int \<Rightarrow> string) \<Rightarrow> int \<Rightarrow> int \<Rightarrow> int \<Rightarrow> string \<Rightarrow> string option \<Rightarrow> MockServer \<Rightarrow> Workspace AxiosOutcome \<times> MockServer" where
  "mock_post_workspaces toISO t_id t_created t_updated nm descr srv =
     (let newWorkspace =
            \<lparr>ws_id = ''ws-'' @ toString_nat (nat t_id), ws_name = nm, ws_description = descr,
             ws_created_at = toISO t_created, ws_updated_at = toISO t_updated\<rparr>
      in (Resolved (Some newWorkspace), srv\<lparr>mock_workspaces := mock_workspaces srv @ [newWorkspace]\<rparr>))"

definition mock_delete_workspace :: "string \<Rightarrow> MockServer \<Rightarrow> unit AxiosOutcome \<times> MockServer" where
  "mock_delete_workspace wid srv =
     (Resolved (Some ()), srv\<lparr>mock_workspaces := filter (\<lambda>ws. ws_id ws \<noteq> wid) (mock_workspaces srv)\<rparr>)"

text \<open>
  \<^verbatim>\<open>
  app.post('/api/v0/workspaces/:workspaceId/sessions/:sessionId/start', (req, res) => {
    const workspaceSessions = sessions[req.params.workspaceId] || [];
    const session = workspaceSessions.find(s => s.id === req.params.sessionId);
    if (session) {
      session.status = 'running';
      session.updated_at = new Date().toISOString();
      res.json(session);
    } else {
      res.status(404).json({ message: 'Session not found' });
    }
  });
  \<close>
  The \<^verbatim>\<open>stop\<close> handler is the same with \<^verbatim>\<open>'stopped'\<close>. \<^verbatim>\<open>find\<close> gives the first element
  with the id, and the handler mutates that element of the stored array in place.
\<close>

fun update_first :: "('a \<Rightarrow> bool) \<Rightarrow> ('a \<Rightarrow> 'a) \<Rightarrow> 'a list \<Rightarrow> 'a list" where
  "update_first p f [] = []"
| "update_first p f (x # xs) = (if p x then f x # xs else x # update_first p f xs)"

definition mock_set_status :: "SessionStatus \<Rightarrow> (int \<Rightarrow> string) \<Rightarrow> int \<Rightarrow> string \<Rightarrow> string \<Rightarrow> MockServer \<Rightarrow> Session AxiosOutcome \<times> MockServer" where
  "mock_set_status st toISO now workspaceId sessionId srv =
     (let workspaceSessions = (case mock_sessions srv workspaceId of None \<Rightarrow> [] | Some l \<Rightarrow> l)
      in case find (\<lambda>s. sess_id s = sessionId) workspaceSessions of
           Some session \<Rightarrow>
             (Resolved (Some (session\<lparr>sess_status := st, sess_updated_at := toISO now\<rparr>)),
              srv\<lparr>mock_sessions := (mock_sessions srv)(workspaceId \<mapsto>
                     update_first (\<lambda>s. sess_id s = sessionId)
                       (\<lambda>s. s\<lparr>sess_status := st, sess_updated_at := toISO now\<rparr>) workspaceSessions)\<rparr>)
         | None \<Rightarrow> (Rejected (status_error 404 ''Session not found''), srv))"

definition mock_post_session_start :: "(int \<Rightarrow> string) \<Rightarrow> int \<Rightarrow> string \<Rightarrow> string \<Rightarrow> MockServer \<Rightarrow> Session AxiosOutcome \<times> MockServer" where
  "mock_post_session_start = mock_set_status running"

definition mock_post_session_stop :: "(int \<Rightarrow> string) \<Rightarrow> int \<Rightarrow> string \<Rightarrow> string \<Rightarrow> MockServer \<Rightarrow> Session AxiosOutcome \<times> MockServer" where
  "mock_post_session_stop = mock_set_status stopped"

section \<open>Auxiliary definitions for the statements\<close>

text \<open>
  \<open>settles\<close> names what the network answers to the one request a call of \<open>request\<close>
  sends: the configuration as it leaves the request interceptor, given to \<open>net\<close> in the
  world of that moment.
\<close>

definition settles :: "'w Platform \<Rightarrow> ('w, 'd) Net \<Rightarrow> HttpMethod \<Rightarrow> string \<Rightarrow> RequestBody option \<Rightarrow> 'w App \<Rightarrow> 'd AxiosOutcome" where
  "settles P net m endpoint payload app =
     (case request_interceptor P
             \<lparr>http_method = m, url = Some endpoint, Authorization = None,
              metadata_startTime = None, body = payload\<rparr> app of
        (config, app1) \<Rightarrow> fst (net (world app1) config))"

text \<open>The invariant of the reducer's states.\<close>

definition auth_invariant :: "AuthState \<Rightarrow> bool" where
  "auth_invariant s =
     ((isAuthenticated s = (user s \<noteq> None)) \<and> (if isAuthenticated s then error s = None else True))"

text \<open>
  Sample values for evaluating the definitions: a platform whose world is the clock
  reading (\<open>sample_trim\<close> strips spaces, as \<^verbatim>\<open>trim\<close> does on a string whose only white
  space is the space character), an application state with a given store at a given
  time, and a store holding a token that expires in 2030.
\<close>

definition sample_trim :: "string \<Rightarrow> string" where
  "sample_trim s = rev (dropWhile (\<lambda>c. c = CHR '' '') (rev (dropWhile (\<lambda>c. c = CHR '' '') s)))"

definition sample_Platform :: "int Platform" where
  "sample_Platform = \<lparr>Date_ctor = sample_Date, Date_now = (\<lambda>w. w), String_trim = sample_trim\<rparr>"

definition sample_App :: "Cookies \<Rightarrow> AuthState \<Rightarrow> 'w \<Rightarrow> 'w App" where
  "sample_App c a w =
     \<lparr>cookies = c, auth = a, actions = [], events = [], sent = [], alerts = [], world = w\<rparr>"

definition valid_Cookies :: Cookies where
  "valid_Cookies =
     \<lparr>raworc_auth_token = Some ''mock-jwt-token-12345'',
      raworc_token_expires = Some ''2030-01-01T00:00:00.000Z''\<rparr>"

text \<open>A network that settles every request to the same outcome and leaves the world alone.\<close>

definition net_always :: "'d AxiosOutcome \<Rightarrow> ('w, 'd) Net" where
  "net_always out w config = (out, w)"

definition authenticated_State :: AuthState where
  "authenticated_State = \<lparr>user = Some sample_User, isAuthenticated = True, isLoading = False, error = None\<rparr>"

text \<open>
  What a call that was answered 401 leaves behind, from the state \<open>app\<close> before it to
  the state \<open>app'\<close> after it: an empty Token Store, one more \<^verbatim>\<open>auth:logout\<close> event, one
  more request sent, one more action dispatched, \<^verbatim>\<open>AUTH_LOGOUT\<close>, and the provider's state
  unauthenticated with no user.
\<close>

definition logged_out_by_401 :: "'w App \<Rightarrow> 'w App \<Rightarrow> bool" where
  "logged_out_by_401 app app' =
     (cookies app' = empty_Cookies
      \<and> events app' = events app @ [''auth:logout'']
      \<and> length (sent app') = Suc (length (sent app))
      \<and> actions app' = actions app @ [AUTH_LOGOUT]
      \<and> auth app' = authReducer (auth app) AUTH_LOGOUT
      \<and> user (auth app') = None
      \<and> \<not> isAuthenticated (auth app'))"

definition sample_AuthResponse :: AuthResponse where
  "sample_AuthResponse = \<lparr>token = ''mock-jwt-token-12345'', token_type = ''Bearer'',
     expires_at = ''2030-01-01T00:00:00.000Z''\<rparr>"

definition sample_credentials :: LoginRequest where
  "sample_credentials = \<lparr>req_user = ''admin'', req_pass = ''password''\<rparr>"

text \<open>
  The data of the mock backend, as sample values, and a component state that mirrors its
  first workspace.
\<close>

definition session_1 :: Session where
  "session_1 = \<lparr>sess_id = ''sess-1'', sess_workspace_id = ''ws-1'', sess_name = ''Web Server'',
     sess_status = running, sess_created_at = ''2024-01-15T11:00:00Z'',
     sess_updated_at = ''2024-01-15T11:00:00Z'',
     container_info = Some \<lparr>image = ''nginx:latest'', ports = [80, 443],
       environment = [(''ENV'', ''development'')]\<rparr>\<rparr>"

definition session_2 :: Session where
  "session_2 = \<lparr>sess_id = ''sess-2'', sess_workspace_id = ''ws-1'', sess_name = ''Database'',
     sess_status = stopped, sess_created_at = ''2024-01-15T11:30:00Z'',
     sess_updated_at = ''2024-01-15T11:30:00Z'',
     container_info = Some \<lparr>image = ''postgres:14'', ports = [5432],
       environment = [(''POSTGRES_DB'', ''testdb'')]\<rparr>\<rparr>"

definition workspace_1 :: Workspace where
  "workspace_1 = \<lparr>ws_id = ''ws-1'', ws_name = ''Development Environment'',
     ws_description = Some ''Main development workspace'',
     ws_created_at = ''2024-01-15T10:00:00Z'', ws_updated_at = ''2024-01-15T10:00:00Z''\<rparr>"

definition workspace_2 :: Workspace where
  "workspace_2 = \<lparr>ws_id = ''ws-2'', ws_name = ''Testing Environment'',
     ws_description = Some ''QA and testing workspace'',
     ws_created_at = ''2024-01-16T10:00:00Z'', ws_updated_at = ''2024-01-16T10:00:00Z''\<rparr>"

definition mock_initial :: MockServer where
  "mock_initial = \<lparr>mock_workspaces = [workspace_1, workspace_2],
     mock_sessions = [''ws-1'' \<mapsto> [session_1, session_2], ''ws-2'' \<mapsto> []]\<rparr>"

definition sample_SessionManager :: SessionManagerState where
  "sample_SessionManager = \<lparr>sessions = [session_1, session_2], sm_loading = False, sm_error = None,
     sm_showCreateModal = False, sm_refreshing = False\<rparr>"

definition network_error :: AxiosError where
  "network_error = \<lparr>response = None, request_obj = Some ''XMLHttpRequest'', err_message = ''Network Error''\<rparr>"

definition sample_toISO :: "int \<Rightarrow> string" where
  "sample_toISO t = (if t = 1600000000000 then ''2020-09-13T12:26:40.000Z'' else ''1970-01-01T00:00:00.000Z'')"

definition sample_WorkspaceList :: WorkspaceListState where
  "sample_WorkspaceList = \<lparr>workspaces = [workspace_1, workspace_2], wl_loading = False, wl_error = None,
     wl_showCreateModal = True, wl_refreshing = False\<rparr>"

definition dev_form :: CreateWorkspaceModalState where
  "dev_form = \<lparr>formData_name = ''Dev'', formData_description = [], cm_loading = False, cm_errors = []\<rparr>"

text \<open>
  The method and URL of each request of a log, and the ones \<^verbatim>\<open>startSession\<close> and
  \<^verbatim>\<open>stopSession\<close> ask for.
\<close>

definition start_request :: "string \<Rightarrow> Session \<Rightarrow> HttpMethod \<times> string option" where
  "start_request workspaceId session =
     (POST, Some (''/workspaces/'' @ workspaceId @ ''/sessions/'' @ sess_id session @ ''/start''))"

definition stop_request :: "string \<Rightarrow> Session \<Rightarrow> HttpMethod \<times> string option" where
  "stop_request workspaceId session =
     (POST, Some (''/workspaces/'' @ workspaceId @ ''/sessions/'' @ sess_id session @ ''/stop''))"

definition requests_of :: "RequestConfig list \<Rightarrow> (HttpMethod \<times> string option) list" where
  "requests_of cs = map (\<lambda>c. (http_method c, url c)) cs"

text \<open>The body \<^verbatim>\<open>handleSubmit\<close> passes to \<^verbatim>\<open>createWorkspace\<close> for a form.\<close>

definition submitted_body :: "'w Platform \<Rightarrow> CreateWorkspaceModalState \<Rightarrow> RequestBody" where
  "submitted_body P m =
     WorkspaceBody (String_trim P (formData_name m))
       (if String_trim P (formData_description m) \<noteq> []
        then Some (String_trim P (formData_description m)) else None)"

text \<open>
  The mock backend as a network for \<^verbatim>\<open>createWorkspace\<close>: the world is the server's state
  and the clock; the route \<^verbatim>\<open>POST /workspaces\<close> runs the handler at the clock's reading.
\<close>

definition mock_Platform :: "(MockServer \<times> int) Platform" where
  "mock_Platform = \<lparr>Date_ctor = sample_Date, Date_now = snd, String_trim = sample_trim\<rparr>"

definition mock_net_workspaces :: "(int \<Rightarrow> string) \<Rightarrow> (MockServer \<times> int, Workspace) Net" where
  "mock_net_workspaces toISO w config =
     (case w of
        (srv, now) \<Rightarrow>
          if http_method config = POST \<and> url config = Some ''/workspaces''
          then (case body config of
                  Some (WorkspaceBody nm descr) \<Rightarrow>
                    (case mock_post_workspaces toISO now now now nm descr srv of
                       (out, srv') \<Rightarrow> (out, (srv', now)))
                | _ \<Rightarrow> (Rejected (status_error 400 ''Bad request''), w))
          else (Rejected (status_error 404 ''Not found''), w))"

text \<open>
  The loop of \<^verbatim>\<open>handleStartAll\<close> and \<^verbatim>\<open>handleStopAll\<close> in the spec's words: one call per
  matching session, one after the other (\<open>calls_in_order\<close> gives the answers in order and
  the application state after the last), and each successful answer applied to the local
  collection as it arrives (\<open>apply_response\<close> replaces the elements that have the id of
  the returned session).
\<close>

fun calls_in_order :: "(string \<Rightarrow> 'w App \<Rightarrow> Session ApiResponse \<times> 'w App) \<Rightarrow> Session list \<Rightarrow> 'w App \<Rightarrow> Session ApiResponse list \<times> 'w App" where
  "calls_in_order call [] app = ([], app)"
| "calls_in_order call (session # rest) app =
     (case call (sess_id session) app of
        (resp, app') \<Rightarrow>
          (case calls_in_order call rest app' of
             (resps, app'') \<Rightarrow> (resp # resps, app'')))"

definition apply_response :: "Session list \<Rightarrow> Session ApiResponse \<Rightarrow> Session list" where
  "apply_response l resp =
     (case success_and_data resp of
        Some d \<Rightarrow> map (\<lambda>y. if sess_id y = sess_id d then d else y) l
      | None \<Rightarrow> l)"

section \<open>The reducer's invariant\<close>

lemma auth_invariant_step: "auth_invariant s \<Longrightarrow> auth_invariant (authReducer s a)"
  by (cases a) (simp_all add: auth_invariant_def)

lemma auth_invariant_foldl: "auth_invariant s \<Longrightarrow> auth_invariant (foldl authReducer s acts)"
  by (induction acts arbitrary: s) (simp_all add: auth_invariant_step)

text \<open>
  C10. Whatever sequence of actions the reducer applies from \<open>initialState\<close>, in the
  resulting state \<open>isAuthenticated\<close> is true exactly when \<open>user\<close> is not null, and when
  \<open>isAuthenticated\<close> is true the \<open>error\<close> field is null.
\<close>

theorem authReducer_invariant:
  "isAuthenticated (dispatch_all initialState acts) = (user (dispatch_all initialState acts) \<noteq> None)
   \<and> (isAuthenticated (dispatch_all initialState acts) \<longrightarrow> error (dispatch_all initialState acts) = None)"
proof -
  have "auth_invariant initialState"
    by (simp add: auth_invariant_def initialState_def)
  then have "auth_invariant (dispatch_all initialState acts)"
    unfolding dispatch_all_def by (rule auth_invariant_foldl)
  then show ?thesis
    by (simp add: auth_invariant_def split: if_splits)
qed

theorem authReducer_invariant_witness:
  "isAuthenticated (dispatch_all initialState [AUTH_START, AUTH_SUCCESS sample_User, CLEAR_ERROR])
   \<and> user (dispatch_all initialState [AUTH_START, AUTH_SUCCESS sample_User, CLEAR_ERROR]) = Some sample_User
   \<and> error (dispatch_all initialState [AUTH_START, AUTH_SUCCESS sample_User, CLEAR_ERROR]) = None"
  using authReducer_invariant [of "[AUTH_START, AUTH_SUCCESS sample_User, CLEAR_ERROR]"]
  by (simp add: dispatch_all_def initialState_def)

section \<open>The Token Store's reads\<close>

text \<open>
  C2, as the code has it. \<open>getToken\<close> returns the stored token, and leaves the store as
  it is, when both entries are present and non-empty and the expiry is a date after now;
  then \<open>isAuthenticated\<close> is true. It returns absent and removes both entries when both
  are present and non-empty and the expiry is a date at or before now; it returns absent
  and leaves the store as it is when the token or the expiry is missing or empty; in both
  cases \<open>isAuthenticated\<close> is false. For a store whose expiry, when present and
  non-empty, is a date, \<open>getToken\<close> returns a token, and \<open>isAuthenticated\<close> is true,
  exactly in the first case. (An expiry that is not a date is outside this statement.)
\<close>

theorem getToken_cases:
  "(raworc_auth_token c = Some t \<and> t \<noteq> [] \<and> raworc_token_expires c = Some e \<and> e \<noteq> []
      \<and> Date e = Some ts \<and> now < ts
     \<longrightarrow> TokenManager_getToken Date now c = (Some t, c)
         \<and> TokenManager_isAuthenticated Date now c = (True, c))
   \<and> (raworc_auth_token c = Some t \<and> t \<noteq> [] \<and> raworc_token_expires c = Some e \<and> e \<noteq> []
      \<and> Date e = Some ts \<and> ts \<le> now
     \<longrightarrow> TokenManager_getToken Date now c = (None, TokenManager_clearToken c)
         \<and> TokenManager_isAuthenticated Date now c = (False, TokenManager_clearToken c)
         \<and> TokenManager_clearToken c = empty_Cookies)
   \<and> (\<not> truthy (raworc_auth_token c) \<or> \<not> truthy (raworc_token_expires c)
     \<longrightarrow> TokenManager_getToken Date now c = (None, c)
         \<and> TokenManager_isAuthenticated Date now c = (False, c))
   \<and> ((\<forall>x. raworc_token_expires c = Some x \<and> x \<noteq> [] \<longrightarrow> Date x \<noteq> None)
     \<longrightarrow> (fst (TokenManager_getToken Date now c) = Some t
            \<longleftrightarrow> raworc_auth_token c = Some t \<and> t \<noteq> []
                \<and> (\<exists>x ts. raworc_token_expires c = Some x \<and> x \<noteq> [] \<and> Date x = Some ts \<and> now < ts))
         \<and> (fst (TokenManager_isAuthenticated Date now c)
            \<longleftrightarrow> (\<exists>t' x ts. raworc_auth_token c = Some t' \<and> t' \<noteq> []
                   \<and> raworc_token_expires c = Some x \<and> x \<noteq> [] \<and> Date x = Some ts \<and> now < ts)))"
proof -
  have e: "TokenManager_clearToken c = empty_Cookies"
    by (cases c) (simp add: TokenManager_clearToken_def empty_Cookies_def)
  show ?thesis
    unfolding e
    by (auto simp: TokenManager_getToken_def TokenManager_isAuthenticated_def
        date_le_def truthy_def e split: option.splits)
qed

theorem getToken_cases_witness:
  "TokenManager_getToken sample_Date 1600000000000
      \<lparr>raworc_auth_token = Some ''tok'', raworc_token_expires = Some ''2030-01-01T00:00:00.000Z''\<rparr>
     = (Some ''tok'', \<lparr>raworc_auth_token = Some ''tok'', raworc_token_expires = Some ''2030-01-01T00:00:00.000Z''\<rparr>)
   \<and> fst (TokenManager_isAuthenticated sample_Date 1600000000000
      \<lparr>raworc_auth_token = Some ''tok'', raworc_token_expires = Some ''2030-01-01T00:00:00.000Z''\<rparr>)
   \<and> TokenManager_isAuthenticated sample_Date 1600000000000
      \<lparr>raworc_auth_token = Some ''tok'', raworc_token_expires = Some ''2020-01-01T00:00:00.000Z''\<rparr>
     = (False, empty_Cookies)
   \<and> TokenManager_getToken sample_Date 1600000000000
      \<lparr>raworc_auth_token = None, raworc_token_expires = Some ''2030-01-01T00:00:00.000Z''\<rparr>
     = (None, \<lparr>raworc_auth_token = None, raworc_token_expires = Some ''2030-01-01T00:00:00.000Z''\<rparr>)"
  using getToken_cases [of "\<lparr>raworc_auth_token = Some ''tok'', raworc_token_expires = Some ''2030-01-01T00:00:00.000Z''\<rparr>"
          "''tok''" "''2030-01-01T00:00:00.000Z''" sample_Date 1893456000000 1600000000000]
        getToken_cases [of "\<lparr>raworc_auth_token = Some ''tok'', raworc_token_expires = Some ''2020-01-01T00:00:00.000Z''\<rparr>"
          "''tok''" "''2020-01-01T00:00:00.000Z''" sample_Date 1577836800000 1600000000000]
        getToken_cases [of "\<lparr>raworc_auth_token = None, raworc_token_expires = Some ''2030-01-01T00:00:00.000Z''\<rparr>"
          "''tok''" "''2030-01-01T00:00:00.000Z''" sample_Date 1893456000000 1600000000000]
  by (simp add: sample_Date_def empty_Cookies_def TokenManager_clearToken_def truthy_def)

text \<open>
  A store that holds a token and no expiry: \<open>getToken\<close> returns absent and the token stays
  in the store.
\<close>

theorem getToken_keeps_orphan_token:
  "TokenManager_getToken sample_Date 1600000000000
      \<lparr>raworc_auth_token = Some ''tok'', raworc_token_expires = None\<rparr>
     = (None, \<lparr>raworc_auth_token = Some ''tok'', raworc_token_expires = None\<rparr>)
   \<and> snd (TokenManager_getToken sample_Date 1600000000000
      \<lparr>raworc_auth_token = Some ''tok'', raworc_token_expires = None\<rparr>) \<noteq> empty_Cookies"
  by (simp add: TokenManager_getToken_def empty_Cookies_def)

text \<open>
  An expiry that is not a date compares false with now, so the token is returned.
\<close>

lemma getToken_invalid_date:
  "raworc_auth_token c = Some t \<Longrightarrow> t \<noteq> [] \<Longrightarrow> raworc_token_expires c = Some e \<Longrightarrow> e \<noteq> [] \<Longrightarrow>
   Date e = None \<Longrightarrow> TokenManager_getToken Date now c = (Some t, c)"
  by (simp add: TokenManager_getToken_def date_le_def)

section \<open>Facts about the request path\<close>

lemma interceptor_world: "world (snd (request_interceptor P config app)) = world app"
  by (simp add: request_interceptor_def split: prod.splits)

lemma interceptor_frame:
  "sent (snd (request_interceptor P config app)) = sent app"
  "events (snd (request_interceptor P config app)) = events app"
  "auth (snd (request_interceptor P config app)) = auth app"
  "actions (snd (request_interceptor P config app)) = actions app"
  "alerts (snd (request_interceptor P config app)) = alerts app"
  by (simp_all add: request_interceptor_def split: prod.splits)

lemma interceptor_config:
  "http_method (fst (request_interceptor P config app)) = http_method config"
  "url (fst (request_interceptor P config app)) = url config"
  "body (fst (request_interceptor P config app)) = body config"
  by (simp_all add: request_interceptor_def split: prod.splits)

lemma request_alt:
  "request P net m endpoint payload app =
     (let ci = request_interceptor P \<lparr>http_method = m, url = Some endpoint, Authorization = None,
                 metadata_startTime = None, body = payload\<rparr> app;
          nw = net (world (snd ci)) (fst ci);
          app2 = (snd ci)\<lparr>sent := sent (snd ci) @ [fst ci], world := snd nw\<rparr>
      in case fst nw of
           Resolved d \<Rightarrow> (\<lparr>data = d, api_error = None, success = True\<rparr>, app2)
         | Rejected err \<Rightarrow> response_error_interceptor err app2)"
  by (cases "request_interceptor P \<lparr>http_method = m, url = Some endpoint, Authorization = None,
                 metadata_startTime = None, body = payload\<rparr> app")
     (simp add: request_def Let_def split: prod.splits AxiosOutcome.splits)

lemma settles_alt:
  "settles P net m endpoint payload app =
     (let ci = request_interceptor P \<lparr>http_method = m, url = Some endpoint, Authorization = None,
                 metadata_startTime = None, body = payload\<rparr> app
      in fst (net (world (snd ci)) (fst ci)))"
  by (cases "request_interceptor P \<lparr>http_method = m, url = Some endpoint, Authorization = None,
                 metadata_startTime = None, body = payload\<rparr> app")
     (simp add: settles_def Let_def)

lemma request_Resolved:
  "settles P net m endpoint payload app = Resolved d \<Longrightarrow>
     fst (request P net m endpoint payload app) = \<lparr>data = d, api_error = None, success = True\<rparr>"
  by (simp add: request_alt settles_alt Let_def)

lemma request_Rejected:
  "settles P net m endpoint payload app = Rejected err \<Longrightarrow>
     fst (request P net m endpoint payload app) = transformError err"
  by (simp add: request_alt settles_alt Let_def response_error_interceptor_def)

lemma transformError_shape:
  "success (transformError err) = False \<and> data (transformError err) = None
   \<and> (\<exists>e. api_error (transformError err) = Some e
        \<and> code e = (case response err of Some r \<Rightarrow> toString_nat (status r)
                    | None \<Rightarrow> (case request_obj err of Some q \<Rightarrow> ''NETWORK_ERROR'' | None \<Rightarrow> ''UNKNOWN_ERROR'')))"
  by (simp add: transformError_def split: option.splits)

lemma request_401:
  assumes "settles P net m endpoint payload app = Rejected err"
    and "response err = Some r" and "status r = 401"
  shows "cookies (snd (request P net m endpoint payload app))
           = \<lparr>raworc_auth_token = None, raworc_token_expires = None\<rparr>"
    and "events (snd (request P net m endpoint payload app)) = events app @ [''auth:logout'']"
    and "\<exists>config. sent (snd (request P net m endpoint payload app)) = sent app @ [config]
           \<and> http_method config = m \<and> url config = Some endpoint"
    and "actions (snd (request P net m endpoint payload app)) = actions app @ [AUTH_LOGOUT]"
    and "auth (snd (request P net m endpoint payload app)) = authReducer (auth app) AUTH_LOGOUT"
  using assms
  by (simp_all add: request_alt settles_alt Let_def response_error_interceptor_def window_dispatchEvent_def
      handleLogout_def dispatch_def TokenManager_clearToken_def interceptor_frame interceptor_config)

lemma request_sent:
  "\<exists>config. sent (snd (request P net m endpoint payload app)) = sent app @ [config]
           \<and> http_method config = m \<and> url config = Some endpoint \<and> body config = payload"
  by (simp add: request_alt Let_def response_error_interceptor_def window_dispatchEvent_def
      handleLogout_def dispatch_def interceptor_frame interceptor_config split: AxiosOutcome.splits)

lemma login_401_same:
  assumes "settles P net POST ''/auth/internal'' (Some (LoginBody credentials)) app = Rejected err"
  shows "snd (apiClient_login P net credentials app)
           = snd (request P net POST ''/auth/internal'' (Some (LoginBody credentials)) app)"
  using request_Rejected [OF assms] transformError_shape [of err]
  by (cases "request P net POST ''/auth/internal'' (Some (LoginBody credentials)) app")
     (auto simp: apiClient_login_def success_and_data_def)

lemma request_logged_out:
  assumes "settles P net m endpoint payload app = Rejected err"
    and "response err = Some r" and "status r = 401"
  shows "logged_out_by_401 app (snd (request P net m endpoint payload app))"
  using request_401 [OF assms]
  by (auto simp: logged_out_by_401_def empty_Cookies_def)

section \<open>The uniform result of the client's methods\<close>

text \<open>
  C5. A call of \<open>request\<close>, so every method of the client, returns a result and raises
  nothing. When the network resolves, the result is \<^verbatim>\<open>{success: true, data}\<close> with the
  body; when it rejects, the result is \<^verbatim>\<open>{success: false, error}\<close> with no data, and the
  error's code is the status as a decimal string when a response was received,
  \<^verbatim>\<open>NETWORK_ERROR\<close> when the request was made and no response was received, and
  \<^verbatim>\<open>UNKNOWN_ERROR\<close> otherwise. \<^verbatim>\<open>login\<close> returns the result of its \<open>request\<close> as it is.
\<close>

theorem request_uniform_result:
  "(case settles P net m endpoint payload app of
      Resolved d \<Rightarrow>
        fst (request P net m endpoint payload app) = \<lparr>data = d, api_error = None, success = True\<rparr>
    | Rejected err \<Rightarrow>
        success (fst (request P net m endpoint payload app)) = False
        \<and> data (fst (request P net m endpoint payload app)) = None
        \<and> (\<exists>e. api_error (fst (request P net m endpoint payload app)) = Some e
             \<and> code e = (case response err of
                           Some r \<Rightarrow> toString_nat (status r)
                         | None \<Rightarrow> (case request_obj err of
                                      Some q \<Rightarrow> ''NETWORK_ERROR''
                                    | None \<Rightarrow> ''UNKNOWN_ERROR''))))
   \<and> fst (apiClient_login P net_auth credentials app)
       = fst (request P net_auth POST ''/auth/internal'' (Some (LoginBody credentials)) app)"
proof -
  have "fst (apiClient_login P net_auth credentials app)
       = fst (request P net_auth POST ''/auth/internal'' (Some (LoginBody credentials)) app)"
    by (simp add: apiClient_login_def split: prod.splits)
  moreover have "case settles P net m endpoint payload app of
      Resolved d \<Rightarrow>
        fst (request P net m endpoint payload app) = \<lparr>data = d, api_error = None, success = True\<rparr>
    | Rejected err \<Rightarrow>
        success (fst (request P net m endpoint payload app)) = False
        \<and> data (fst (request P net m endpoint payload app)) = None
        \<and> (\<exists>e. api_error (fst (request P net m endpoint payload app)) = Some e
             \<and> code e = (case response err of
                           Some r \<Rightarrow> toString_nat (status r)
                         | None \<Rightarrow> (case request_obj err of
                                      Some q \<Rightarrow> ''NETWORK_ERROR''
                                    | None \<Rightarrow> ''UNKNOWN_ERROR'')))"
  proof (cases "settles P net m endpoint payload app")
    case (Resolved d)
    then show ?thesis by (simp add: request_Resolved)
  next
    case (Rejected err)
    then show ?thesis using transformError_shape [of err] by (simp add: request_Rejected)
  qed
  ultimately show ?thesis by simp
qed

theorem request_uniform_result_witness:
  "fst (request sample_Platform (net_always (Rejected (status_error 404 ''Session not found''))) GET
          ''/workspaces'' None (sample_App valid_Cookies initialState 1600000000000))
     = (\<lparr>data = None,
         api_error = Some \<lparr>message = ''Session not found'', code = ''404'',
           details = Some (ResponseDetails \<lparr>data_message = Some ''Session not found'', data_text = []\<rparr>)\<rparr>,
         success = False\<rparr> :: Workspace list ApiResponse)"
  using request_uniform_result [of sample_Platform "net_always (Rejected (status_error 404 ''Session not found''))" GET
          "''/workspaces''" None "sample_App valid_Cookies initialState 1600000000000"]
  by (simp add: settles_def net_always_def status_error_def digit_char_def request_def
        response_error_interceptor_def transformError_def or_else_def split: prod.splits)

section \<open>A 401 answer forces the logout\<close>

text \<open>
  C1. Whatever the method, the endpoint and the body, when the one request of a call is
  answered with status 401 the call leaves the Token Store empty (both entries removed),
  has dispatched one \<^verbatim>\<open>auth:logout\<close> event and sent one request (no retry), and the
  provider, whose listener ran on the event, has dispatched \<^verbatim>\<open>AUTH_LOGOUT\<close> and is
  unauthenticated with no user. The same holds for \<^verbatim>\<open>login\<close>, the one method that does
  more than call \<open>request\<close>.
\<close>

theorem unauthorized_forces_logout:
  "(settles P net m endpoint payload app = Rejected err \<and> response err = Some r \<and> status r = 401
      \<longrightarrow> logged_out_by_401 app (snd (request P net m endpoint payload app)))
   \<and> (settles P net_auth POST ''/auth/internal'' (Some (LoginBody credentials)) app = Rejected err
        \<and> response err = Some r \<and> status r = 401
      \<longrightarrow> logged_out_by_401 app (snd (apiClient_login P net_auth credentials app)))"
  using request_logged_out [of P net m endpoint payload app err r]
    request_logged_out [of P net_auth POST "''/auth/internal''" "Some (LoginBody credentials)" app err r]
    login_401_same [of P net_auth credentials app err]
  by simp

theorem unauthorized_forces_logout_witness:
  "cookies (snd (request sample_Platform
       (net_always (Rejected (status_error 401 ''Unauthorized'') :: Session list AxiosOutcome)) GET
       ''/workspaces/ws-1/sessions'' None (sample_App valid_Cookies authenticated_State 1600000000000)))
     = empty_Cookies
   \<and> events (snd (request sample_Platform
       (net_always (Rejected (status_error 401 ''Unauthorized'') :: Session list AxiosOutcome)) GET
       ''/workspaces/ws-1/sessions'' None (sample_App valid_Cookies authenticated_State 1600000000000)))
     = [''auth:logout'']
   \<and> auth (snd (request sample_Platform
       (net_always (Rejected (status_error 401 ''Unauthorized'') :: Session list AxiosOutcome)) GET
       ''/workspaces/ws-1/sessions'' None (sample_App valid_Cookies authenticated_State 1600000000000)))
     = \<lparr>user = None, isAuthenticated = False, isLoading = False, error = None\<rparr>"
  using unauthorized_forces_logout [of sample_Platform
       "net_always (Rejected (status_error 401 ''Unauthorized'') :: Session list AxiosOutcome)" GET
       "''/workspaces/ws-1/sessions''" None "sample_App valid_Cookies authenticated_State 1600000000000"
       "status_error 401 ''Unauthorized''"
       "\<lparr>status = 401, response_data = Some \<lparr>data_message = Some ''Unauthorized'', data_text = []\<rparr>\<rparr>"]
  by (simp add: settles_alt net_always_def status_error_def logged_out_by_401_def Let_def
        sample_App_def authenticated_State_def)

section \<open>The periodic token check\<close>

text \<open>
  The interval callback refers to the state of the first render, which is not
  authenticated, so a tick dispatches nothing, whatever the provider's state is.
\<close>

lemma tokenCheck_frame:
  "auth (tokenCheckInterval_tick P app) = auth app \<and> actions (tokenCheckInterval_tick P app) = actions app"
  by (simp add: tokenCheckInterval_tick_def tokenCheck_def initialState_def split: prod.splits)

text \<open>Given the provider's current state, the same check does log out.\<close>

lemma tokenCheck_current_state:
  "\<not> fst (TokenManager_isAuthenticated (Date_ctor P) (Date_now P (world app)) (cookies app)) \<Longrightarrow>
   isAuthenticated state \<Longrightarrow>
   auth (tokenCheck P state app) = authReducer (auth app) AUTH_LOGOUT"
  by (cases "TokenManager_isAuthenticated (Date_ctor P) (Date_now P (world app)) (cookies app)")
     (auto simp: tokenCheck_def dispatch_def)

text \<open>
  C4, evaluated: the Token Store is empty, so \<open>isAuthenticated()\<close> is false, and the
  provider is authenticated; after the tick the provider is still authenticated and
  no action has been dispatched.
\<close>

theorem tick_leaves_authenticated:
  "fst (TokenManager_isAuthenticated sample_Date 1600000000000 empty_Cookies) = False
   \<and> isAuthenticated (auth (sample_App empty_Cookies authenticated_State (1600000000000 :: int)))
   \<and> auth (tokenCheckInterval_tick sample_Platform
        (sample_App empty_Cookies authenticated_State 1600000000000)) = authenticated_State
   \<and> actions (tokenCheckInterval_tick sample_Platform
        (sample_App empty_Cookies authenticated_State 1600000000000)) = []"
  by (simp add: tokenCheckInterval_tick_def tokenCheck_def initialState_def sample_App_def
      TokenManager_isAuthenticated_def TokenManager_getToken_def empty_Cookies_def
      authenticated_State_def sample_Platform_def)

section \<open>The classification of requests\<close>

text \<open>
  \<open>includes_str\<close> is the substring test, and the interceptor sets the header exactly for a
  request it does not take for public while the Token Store returns a token.
\<close>

lemma startsWith_iff: "startsWith s sub \<longleftrightarrow> (\<exists>q. s = sub @ q)"
  by (induction s sub rule: startsWith.induct) auto

lemma includes_str_iff: "includes_str s sub \<longleftrightarrow> (\<exists>p q. s = p @ sub @ q)"
proof (induction s)
  case Nil
  then show ?case by auto
next
  case (Cons x xs)
  show ?case
  proof
    assume "includes_str (x # xs) sub"
    then consider "startsWith (x # xs) sub" | "includes_str xs sub" by auto
    then show "\<exists>p q. x # xs = p @ sub @ q"
    proof cases
      case 1
      then obtain q where "x # xs = sub @ q" by (auto simp: startsWith_iff)
      then have "x # xs = [] @ sub @ q" by simp
      then show ?thesis by blast
    next
      case 2
      then obtain p q where "xs = p @ sub @ q" using Cons.IH by auto
      then have "x # xs = (x # p) @ sub @ q" by simp
      then show ?thesis by blast
    qed
  next
    assume "\<exists>p q. x # xs = p @ sub @ q"
    then obtain p q where pq: "x # xs = p @ sub @ q" by auto
    show "includes_str (x # xs) sub"
    proof (cases p)
      case Nil
      then have "startsWith (x # xs) sub" using pq by (auto simp: startsWith_iff)
      then show ?thesis by simp
    next
      case (Cons y p')
      then have "xs = p' @ sub @ q" using pq by simp
      then have "includes_str xs sub" using Cons.IH by auto
      then show ?thesis by simp
    qed
  qed
qed

lemma getToken_Some_nonempty:
  "fst (TokenManager_getToken Date now c) = Some t \<Longrightarrow> t \<noteq> []"
  by (auto simp: TokenManager_getToken_def split: option.splits if_splits)

lemma interceptor_header:
  "Authorization (fst (request_interceptor P config app))
     = (if isPublicEndpoint config then Authorization config
        else (case fst (TokenManager_getToken (Date_ctor P) (Date_now P (world app)) (cookies app)) of
                Some t \<Rightarrow> Some (''Bearer '' @ t)
              | None \<Rightarrow> Authorization config))"
  using getToken_Some_nonempty [of "Date_ctor P" "Date_now P (world app)" "cookies app"]
  by (cases "TokenManager_getToken (Date_ctor P) (Date_now P (world app)) (cookies app)")
     (auto simp: request_interceptor_def TokenManager_getAuthHeader_def truthy_def
        split: option.splits)

lemma public_endpoints_classified:
  "isPublicEndpoint (c\<lparr>url := Some ''/auth/internal''\<rparr>)"
  "isPublicEndpoint (c\<lparr>url := Some ''/health''\<rparr>)"
  "isPublicEndpoint (c\<lparr>url := Some ''/version''\<rparr>)"
  "\<not> isPublicEndpoint (c\<lparr>url := Some ''/auth/me''\<rparr>)"
  "\<not> isPublicEndpoint (c\<lparr>url := Some ''/auth/external''\<rparr>)"
  "\<not> isPublicEndpoint (c\<lparr>url := Some ''/workspaces''\<rparr>)"
  by (simp_all add: isPublicEndpoint_def publicEndpoints_def)

text \<open>
  C6, evaluated: for a workspace whose id is \<^verbatim>\<open>healthy\<close>, \<^verbatim>\<open>getSessions\<close> asks for
  \<^verbatim>\<open>/workspaces/healthy/sessions\<close>, which contains \<^verbatim>\<open>/health\<close>; the interceptor takes it for
  a public endpoint and sends it without the \<^verbatim>\<open>Authorization\<close> header, although the Token
  Store holds a valid token, which the same call for the workspace \<^verbatim>\<open>ws-1\<close> does carry.
\<close>

theorem getSessions_healthy_sent_without_token:
  "isPublicEndpoint \<lparr>http_method = GET, url = Some ''/workspaces/healthy/sessions'', Authorization = None,
       metadata_startTime = None, body = None\<rparr>
   \<and> TokenManager_getAuthHeader sample_Date 1600000000000 valid_Cookies
       = (Some ''Bearer mock-jwt-token-12345'', valid_Cookies)
   \<and> map Authorization (sent (snd (apiClient_getSessions sample_Platform (net_always (Resolved None))
         ''healthy'' (sample_App valid_Cookies authenticated_State 1600000000000)))) = [None]
   \<and> map Authorization (sent (snd (apiClient_getSessions sample_Platform (net_always (Resolved None))
         ''ws-1'' (sample_App valid_Cookies authenticated_State 1600000000000))))
       = [Some ''Bearer mock-jwt-token-12345'']"
  by (simp add: isPublicEndpoint_def publicEndpoints_def apiClient_getSessions_def request_def
      request_interceptor_def TokenManager_getAuthHeader_def TokenManager_getToken_def
      valid_Cookies_def sample_Date_def date_le_def truthy_def sample_Platform_def sample_App_def
      net_always_def)

section \<open>The provider's login\<close>

lemma request_actions:
  "\<exists>xs. actions (snd (request P net m endpoint payload app)) = actions app @ xs"
  by (simp add: request_alt Let_def response_error_interceptor_def window_dispatchEvent_def
      handleLogout_def dispatch_def interceptor_frame split: AxiosOutcome.splits)

lemma login_actions:
  "\<exists>xs. actions (snd (apiClient_login P net credentials app)) = actions app @ xs"
  using request_actions [of P net POST "''/auth/internal''" "Some (LoginBody credentials)" app]
  by (cases "request P net POST ''/auth/internal'' (Some (LoginBody credentials)) app")
     (auto simp: apiClient_login_def split: option.splits)

lemma AuthState_all_updated:
  "(a::AuthState)\<lparr>user := u, isAuthenticated := b, isLoading := l, error := e\<rparr>
     = \<lparr>user = u, isAuthenticated = b, isLoading = l, error = e\<rparr>"
  by (cases a) simp

lemma or_else_nonempty: "b \<noteq> [] \<Longrightarrow> or_else a b \<noteq> []"
  by (simp add: or_else_def split: option.splits)

text \<open>
  C3. \<open>login\<close> first dispatches \<^verbatim>\<open>AUTH_START\<close>, which sets \<open>isLoading\<close>. It returns true
  exactly when the login call and the fetch of the current user that follows it both
  return a success with data; then the provider ends authenticated, holding the fetched
  user and no error. In every other case, the one of a login call that succeeded and a
  user fetch that failed included, it returns false and the provider ends
  unauthenticated, with no user and a non-empty error message.
\<close>

theorem login_outcome:
  assumes "apiClient_login P net_auth credentials (dispatch AUTH_START app) = (r1, app1)"
    and "apiClient_getCurrentUser P net_user app1 = (r2, app2)"
  shows "isLoading (auth (dispatch AUTH_START app))
     \<and> (\<exists>rest. actions (snd (AuthProvider_login P net_auth net_user credentials app))
                 = actions app @ AUTH_START # rest)
     \<and> (fst (AuthProvider_login P net_auth net_user credentials app)
          \<longleftrightarrow> success_and_data r1 \<noteq> None \<and> success_and_data r2 \<noteq> None)
     \<and> (success_and_data r1 \<noteq> None \<and> success_and_data r2 \<noteq> None
          \<longrightarrow> auth (snd (AuthProvider_login P net_auth net_user credentials app))
                = \<lparr>user = success_and_data r2, isAuthenticated = True, isLoading = False, error = None\<rparr>)
     \<and> (\<not> (success_and_data r1 \<noteq> None \<and> success_and_data r2 \<noteq> None)
          \<longrightarrow> (\<exists>msg. msg \<noteq> []
                \<and> auth (snd (AuthProvider_login P net_auth net_user credentials app))
                    = \<lparr>user = None, isAuthenticated = False, isLoading = False, error = Some msg\<rparr>))"
proof -
  have loading: "isLoading (auth (dispatch AUTH_START app))"
    by (simp add: dispatch_def)
  obtain xs where xs: "actions app1 = actions app @ AUTH_START # xs"
    using login_actions [of P net_auth credentials "dispatch AUTH_START app"] assms(1)
    by (auto simp: dispatch_def)
  obtain ys where ys: "actions app2 = actions app1 @ ys"
    using request_actions [of P net_user GET "''/auth/me''" None app1] assms(2)
    by (auto simp: apiClient_getCurrentUser_def)
  show ?thesis
  proof (cases "success_and_data r1")
    case None
    then show ?thesis using assms(1) loading xs
      by (auto simp: AuthProvider_login_def dispatch_def or_else_nonempty AuthState_all_updated)
  next
    case (Some d)
    show ?thesis
    proof (cases "success_and_data r2")
      case None
      then show ?thesis using assms Some loading xs ys
        by (auto simp: AuthProvider_login_def dispatch_def AuthState_all_updated)
    next
      case (Some u)
      then show ?thesis using assms \<open>success_and_data r1 = Some d\<close> loading xs ys
        by (auto simp: AuthProvider_login_def dispatch_def AuthState_all_updated)
    qed
  qed
qed

theorem login_outcome_witness:
  "fst (AuthProvider_login sample_Platform (net_always (Resolved (Some sample_AuthResponse)))
          (net_always (Resolved (Some sample_User))) sample_credentials
          (sample_App empty_Cookies initialState 1600000000000))
   \<and> auth (snd (AuthProvider_login sample_Platform (net_always (Resolved (Some sample_AuthResponse)))
          (net_always (Resolved (Some sample_User))) sample_credentials
          (sample_App empty_Cookies initialState 1600000000000)))
       = \<lparr>user = Some sample_User, isAuthenticated = True, isLoading = False, error = None\<rparr>
   \<and> \<not> fst (AuthProvider_login sample_Platform (net_always (Resolved (Some sample_AuthResponse)))
          (net_always (Rejected (status_error 500 ''Internal error''))) sample_credentials
          (sample_App empty_Cookies initialState 1600000000000))
   \<and> auth (snd (AuthProvider_login sample_Platform (net_always (Resolved (Some sample_AuthResponse)))
          (net_always (Rejected (status_error 500 ''Internal error''))) sample_credentials
          (sample_App empty_Cookies initialState 1600000000000)))
       = \<lparr>user = None, isAuthenticated = False, isLoading = False,
           error = Some ''Failed to get user information''\<rparr>"
  using login_outcome [of sample_Platform "net_always (Resolved (Some sample_AuthResponse))" sample_credentials
          "sample_App empty_Cookies initialState 1600000000000"
          "fst (apiClient_login sample_Platform (net_always (Resolved (Some sample_AuthResponse))) sample_credentials
                  (dispatch AUTH_START (sample_App empty_Cookies initialState 1600000000000)))"
          "snd (apiClient_login sample_Platform (net_always (Resolved (Some sample_AuthResponse))) sample_credentials
                  (dispatch AUTH_START (sample_App empty_Cookies initialState 1600000000000)))"
          "net_always (Resolved (Some sample_User))"
          "fst (apiClient_getCurrentUser sample_Platform (net_always (Resolved (Some sample_User)))
                 (snd (apiClient_login sample_Platform (net_always (Resolved (Some sample_AuthResponse))) sample_credentials
                  (dispatch AUTH_START (sample_App empty_Cookies initialState 1600000000000)))))"
          "snd (apiClient_getCurrentUser sample_Platform (net_always (Resolved (Some sample_User)))
                 (snd (apiClient_login sample_Platform (net_always (Resolved (Some sample_AuthResponse))) sample_credentials
                  (dispatch AUTH_START (sample_App empty_Cookies initialState 1600000000000)))))"]
  by (simp add: AuthProvider_login_def apiClient_login_def apiClient_getCurrentUser_def request_def
      request_interceptor_def net_always_def success_and_data_def dispatch_def sample_App_def
      response_error_interceptor_def transformError_def status_error_def isPublicEndpoint_def
      publicEndpoints_def TokenManager_getAuthHeader_def TokenManager_getToken_def
      TokenManager_setToken_def sample_AuthResponse_def sample_Platform_def sample_Date_def
      date_le_def truthy_def initialState_def empty_Cookies_def error_message_def or_else_def
      split: prod.splits)

text \<open>
  In the second evaluation above the login call stored the token and the user fetch
  failed with status 500: the provider is unauthenticated, and the token is still in the
  Token Store.
\<close>

lemma login_keeps_token:
  "cookies (snd (AuthProvider_login sample_Platform (net_always (Resolved (Some sample_AuthResponse)))
          (net_always (Rejected (status_error 500 ''Internal error''))) sample_credentials
          (sample_App empty_Cookies initialState 1600000000000)))
    = valid_Cookies"
  by (simp add: AuthProvider_login_def apiClient_login_def apiClient_getCurrentUser_def request_def
      request_interceptor_def net_always_def success_and_data_def dispatch_def sample_App_def
      response_error_interceptor_def transformError_def status_error_def isPublicEndpoint_def
      publicEndpoints_def TokenManager_getAuthHeader_def TokenManager_getToken_def
      TokenManager_setToken_def sample_AuthResponse_def sample_Platform_def sample_Date_def
      date_le_def truthy_def initialState_def empty_Cookies_def error_message_def or_else_def valid_Cookies_def
      split: prod.splits)

section \<open>Loading a collection\<close>

lemma transformError_fields:
  "success (transformError err) = False"
  "data (transformError err) = None"
  by (simp_all add: transformError_def split: option.splits)

lemma request_success_and_data:
  "success_and_data (fst (request P net m endpoint payload app))
     = (case settles P net m endpoint payload app of Resolved d \<Rightarrow> d | Rejected err \<Rightarrow> None)"
proof (cases "settles P net m endpoint payload app")
  case (Resolved d)
  then show ?thesis by (simp add: request_Resolved success_and_data_def)
next
  case (Rejected err)
  then show ?thesis
    by (simp add: request_Rejected success_and_data_def transformError_fields)
qed

text \<open>
  C9. When the fetch resolves with a collection, \<open>load\<close> replaces the local collection
  with it; in every other case the local collection is unchanged. A silent load leaves
  the error message as it was, whatever the outcome; a load that is not silent clears
  the message on success and sets a non-empty one on failure. The workspace list has the
  non-silent mode only.
\<close>

theorem load_replaces_or_keeps:
  "(settles P net GET (''/workspaces/'' @ ws_id ws @ ''/sessions'') None app = Resolved (Some d)
      \<longrightarrow> sessions (fst (loadSessions P net (Some ws) silent (s, app))) = d
          \<and> sm_error (fst (loadSessions P net (Some ws) silent (s, app)))
              = (if silent then sm_error s else None))
   \<and> ((\<forall>x. settles P net GET (''/workspaces/'' @ ws_id ws @ ''/sessions'') None app \<noteq> Resolved (Some x))
      \<longrightarrow> sessions (fst (loadSessions P net (Some ws) silent (s, app))) = sessions s
          \<and> (if silent then sm_error (fst (loadSessions P net (Some ws) silent (s, app))) = sm_error s
              else (\<exists>msg. msg \<noteq> [] \<and> sm_error (fst (loadSessions P net (Some ws) silent (s, app))) = Some msg)))
   \<and> (settles P net_ws GET ''/workspaces'' None app = Resolved (Some dw)
      \<longrightarrow> workspaces (fst (loadWorkspaces P net_ws (wl, app))) = dw
          \<and> wl_error (fst (loadWorkspaces P net_ws (wl, app))) = None)
   \<and> ((\<forall>x. settles P net_ws GET ''/workspaces'' None app \<noteq> Resolved (Some x))
      \<longrightarrow> workspaces (fst (loadWorkspaces P net_ws (wl, app))) = workspaces wl
          \<and> (\<exists>msg. msg \<noteq> [] \<and> wl_error (fst (loadWorkspaces P net_ws (wl, app))) = Some msg))"
proof -
  have a: "success_and_data (fst (apiClient_getSessions P net (ws_id ws) app))
         = (case settles P net GET (''/workspaces/'' @ ws_id ws @ ''/sessions'') None app of
              Resolved d \<Rightarrow> d | Rejected err \<Rightarrow> None)"
    by (simp add: apiClient_getSessions_def request_success_and_data)
  have b: "success_and_data (fst (apiClient_getWorkspaces P net_ws app))
         = (case settles P net_ws GET ''/workspaces'' None app of
              Resolved d \<Rightarrow> d | Rejected err \<Rightarrow> None)"
    by (simp add: apiClient_getWorkspaces_def request_success_and_data)
  have s1: "settles P net GET (''/workspaces/'' @ ws_id ws @ ''/sessions'') None app = Resolved (Some d)
      \<longrightarrow> sessions (fst (loadSessions P net (Some ws) silent (s, app))) = d
          \<and> sm_error (fst (loadSessions P net (Some ws) silent (s, app)))
              = (if silent then sm_error s else None)"
    using a by (cases "apiClient_getSessions P net (ws_id ws) app") (auto simp: loadSessions_def Let_def)
  have s2: "(\<forall>x. settles P net GET (''/workspaces/'' @ ws_id ws @ ''/sessions'') None app \<noteq> Resolved (Some x))
      \<longrightarrow> sessions (fst (loadSessions P net (Some ws) silent (s, app))) = sessions s
          \<and> (if silent then sm_error (fst (loadSessions P net (Some ws) silent (s, app))) = sm_error s
              else (\<exists>msg. msg \<noteq> [] \<and> sm_error (fst (loadSessions P net (Some ws) silent (s, app))) = Some msg))"
    using a
    by (cases "apiClient_getSessions P net (ws_id ws) app";
        cases "settles P net GET (''/workspaces/'' @ ws_id ws @ ''/sessions'') None app")
       (auto simp: loadSessions_def Let_def or_else_nonempty split: option.splits)
  have w1: "settles P net_ws GET ''/workspaces'' None app = Resolved (Some dw)
      \<longrightarrow> workspaces (fst (loadWorkspaces P net_ws (wl, app))) = dw
          \<and> wl_error (fst (loadWorkspaces P net_ws (wl, app))) = None"
    using b by (cases "apiClient_getWorkspaces P net_ws app") (auto simp: loadWorkspaces_def Let_def)
  have w2: "(\<forall>x. settles P net_ws GET ''/workspaces'' None app \<noteq> Resolved (Some x))
      \<longrightarrow> workspaces (fst (loadWorkspaces P net_ws (wl, app))) = workspaces wl
          \<and> (\<exists>msg. msg \<noteq> [] \<and> wl_error (fst (loadWorkspaces P net_ws (wl, app))) = Some msg)"
    using b
    by (cases "apiClient_getWorkspaces P net_ws app"; cases "settles P net_ws GET ''/workspaces'' None app")
       (auto simp: loadWorkspaces_def Let_def or_else_nonempty split: option.splits)
  from s1 s2 w1 w2 show ?thesis by blast
qed

theorem load_replaces_or_keeps_witness:
  "sessions (fst (loadSessions sample_Platform (net_always (Resolved (Some [session_2]))) (Some workspace_1) True
        (sample_SessionManager, sample_App valid_Cookies authenticated_State 1600000000000)))
     = [session_2]
   \<and> sessions (fst (loadSessions sample_Platform (net_always (Rejected network_error)) (Some workspace_1) True
        (sample_SessionManager, sample_App valid_Cookies authenticated_State 1600000000000)))
     = [session_1, session_2]
   \<and> sm_error (fst (loadSessions sample_Platform (net_always (Rejected network_error)) (Some workspace_1) True
        (sample_SessionManager, sample_App valid_Cookies authenticated_State 1600000000000)))
     = None
   \<and> sm_error (fst (loadSessions sample_Platform (net_always (Rejected network_error)) (Some workspace_1) False
        (sample_SessionManager, sample_App valid_Cookies authenticated_State 1600000000000)))
     = Some ''Network error - please check your connection''"
  using load_replaces_or_keeps [where P = sample_Platform and ws = workspace_1 and s = sample_SessionManager
      and net = "net_always (Resolved (Some [session_2]))" and d = "[session_2]" and silent = True
      and app = "sample_App valid_Cookies authenticated_State 1600000000000"]
    load_replaces_or_keeps [where P = sample_Platform and ws = workspace_1 and s = sample_SessionManager
      and net = "net_always (Rejected network_error)" and silent = True
      and app = "sample_App valid_Cookies authenticated_State 1600000000000"]
  by (simp add: loadSessions_def apiClient_getSessions_def request_def settles_def
      request_interceptor_def isPublicEndpoint_def publicEndpoints_def TokenManager_getAuthHeader_def
      TokenManager_getToken_def valid_Cookies_def sample_Date_def date_le_def truthy_def sample_App_def
      sample_Platform_def net_always_def success_and_data_def response_error_interceptor_def
      network_error_def transformError_def sample_SessionManager_def workspace_1_def error_message_def
      or_else_def Let_def)

section \<open>Starting and stopping every session\<close>

lemma forEach_session_sent:
  assumes "\<And>i a. \<exists>config. sent (snd (call i a)) = sent a @ [config]
                       \<and> (http_method config, url config) = key i"
  shows "\<exists>new. sent (snd (forEach_session call xs (s, app))) = sent app @ new
               \<and> requests_of new = map (\<lambda>x. key (sess_id x)) xs"
proof (induction xs arbitrary: s app)
  case Nil
  then show ?case by (simp add: requests_of_def)
next
  case (Cons x xs)
  obtain resp app' where c: "call (sess_id x) app = (resp, app')"
    by (cases "call (sess_id x) app")
  obtain config where cfg: "sent app' = sent app @ [config]" "(http_method config, url config) = key (sess_id x)"
    using assms [of "sess_id x" app] c by auto
  define s' where "s' = (case success_and_data resp of Some d \<Rightarrow> handleSessionUpdated d s | None \<Rightarrow> s)"
  obtain new where new: "sent (snd (forEach_session call xs (s', app'))) = sent app' @ new"
      "requests_of new = map (\<lambda>x. key (sess_id x)) xs"
    using Cons.IH [of s' app'] by auto
  have "forEach_session call (x # xs) (s, app) = forEach_session call xs (s', app')"
    using c by (simp add: s'_def)
  then show ?case using new cfg
    by (intro exI [of _ "config # new"]) (simp add: requests_of_def)
qed

lemma handleSessionUpdated_ids:
  "map sess_id (sessions (handleSessionUpdated d s)) = map sess_id (sessions s)"
  by (simp add: handleSessionUpdated_def comp_def cong: map_cong)

lemma forEach_session_ids:
  "map sess_id (sessions (fst (forEach_session call xs (s, app)))) = map sess_id (sessions s)"
proof (induction xs arbitrary: s app)
  case Nil
  then show ?case by simp
next
  case (Cons x xs)
  obtain resp app' where c: "call (sess_id x) app = (resp, app')"
    by (cases "call (sess_id x) app")
  show ?case using c Cons.IH
    by (cases "success_and_data resp") (simp_all add: handleSessionUpdated_ids)
qed

lemma startSession_sent:
  "\<exists>config. sent (snd (apiClient_startSession P net wid i a)) = sent a @ [config]
      \<and> (http_method config, url config) = (POST, Some (''/workspaces/'' @ wid @ ''/sessions/'' @ i @ ''/start''))"
  using request_sent [of P net POST "''/workspaces/'' @ wid @ ''/sessions/'' @ i @ ''/start''" None a]
  by (auto simp: apiClient_startSession_def)

lemma stopSession_sent:
  "\<exists>config. sent (snd (apiClient_stopSession P net wid i a)) = sent a @ [config]
      \<and> (http_method config, url config) = (POST, Some (''/workspaces/'' @ wid @ ''/sessions/'' @ i @ ''/stop''))"
  using request_sent [of P net POST "''/workspaces/'' @ wid @ ''/sessions/'' @ i @ ''/stop''" None a]
  by (auto simp: apiClient_stopSession_def)

lemma start_request_fun:
  "start_request wid = (\<lambda>x. (POST, Some (''/workspaces/'' @ wid @ ''/sessions/'' @ sess_id x @ ''/start'')))"
  by (simp add: fun_eq_iff start_request_def)

lemma stop_request_fun:
  "stop_request wid = (\<lambda>x. (POST, Some (''/workspaces/'' @ wid @ ''/sessions/'' @ sess_id x @ ''/stop'')))"
  by (simp add: fun_eq_iff stop_request_def)

lemma find_Some_id: "find (\<lambda>s. sess_id s = i) l = Some x \<Longrightarrow> sess_id x = i"
  by (induction l) (auto split: if_splits)

lemma mock_start_running:
  assumes "mock_sessions srv wid = Some l" and "find (\<lambda>s. sess_id s = sid) l = Some x"
  shows "fst (mock_post_session_start toISO now wid sid srv)
           = Resolved (Some (x\<lparr>sess_status := running, sess_updated_at := toISO now\<rparr>))"
  using assms by (simp add: mock_post_session_start_def mock_set_status_def)

lemma updated_cases:
  "y \<in> set (sessions (handleSessionUpdated d s)) \<Longrightarrow>
     y = d \<or> (y \<in> set (sessions s) \<and> sess_id y \<noteq> sess_id d)"
  by (auto simp: handleSessionUpdated_def split: if_splits)

lemma forEach_session_all_started:
  assumes "\<And>i a. \<exists>d. success_and_data (fst (call i a)) = Some d \<and> sess_id d = i \<and> sess_status d \<noteq> st"
    and "\<forall>y \<in> set (sessions s). sess_status y = st \<longrightarrow> sess_id y \<in> sess_id ` set xs"
  shows "\<forall>y \<in> set (sessions (fst (forEach_session call xs (s, app)))). sess_status y \<noteq> st"
  using assms(2)
proof (induction xs arbitrary: s app)
  case Nil
  then show ?case by auto
next
  case (Cons x xs)
  obtain resp app' where c: "call (sess_id x) app = (resp, app')"
    by (cases "call (sess_id x) app")
  obtain d where d: "success_and_data resp = Some d" "sess_id d = sess_id x" "sess_status d \<noteq> st"
    using assms(1) [of "sess_id x" app] c by auto
  have step: "forEach_session call (x # xs) (s, app) = forEach_session call xs (handleSessionUpdated d s, app')"
    using c d by simp
  have "\<forall>y \<in> set (sessions (handleSessionUpdated d s)). sess_status y = st \<longrightarrow> sess_id y \<in> sess_id ` set xs"
  proof (intro ballI impI)
    fix y
    assume y: "y \<in> set (sessions (handleSessionUpdated d s))" and st: "sess_status y = st"
    from updated_cases [OF y] st d(3) have "y \<in> set (sessions s)" "sess_id y \<noteq> sess_id d" by auto
    with Cons.prems st have "sess_id y \<in> sess_id ` set (x # xs)" by blast
    with \<open>sess_id y \<noteq> sess_id d\<close> d(2) show "sess_id y \<in> sess_id ` set xs" by auto
  qed
  then have "\<forall>y \<in> set (sessions (fst (forEach_session call xs (handleSessionUpdated d s, app')))). sess_status y \<noteq> st"
    by (rule Cons.IH)
  then show ?case by (simp only: step)
qed

lemma startAll_all_started:
  assumes "\<And>i a. \<exists>d. success_and_data (fst (apiClient_startSession P net (ws_id ws) i a)) = Some d
              \<and> sess_id d = i \<and> sess_status d \<noteq> stopped"
  shows "\<forall>y \<in> set (sessions (fst (handleStartAll P net (Some ws) (s, app)))). sess_status y \<noteq> stopped"
proof -
  have "\<forall>y \<in> set (sessions s). sess_status y = stopped
          \<longrightarrow> sess_id y \<in> sess_id ` set (filter (\<lambda>session. sess_status session = stopped) (sessions s))"
    by simp
  then have main: "\<forall>y \<in> set (sessions (fst (forEach_session (apiClient_startSession P net (ws_id ws))
                  (filter (\<lambda>session. sess_status session = stopped) (sessions s)) (s, app)))).
               sess_status y \<noteq> stopped"
    by (rule forEach_session_all_started [OF assms])
  have eq: "handleStartAll P net (Some ws) (s, app)
          = forEach_session (apiClient_startSession P net (ws_id ws))
              (filter (\<lambda>session. sess_status session = stopped) (sessions s)) (s, app)"
    by (simp add: handleStartAll_def)
  show ?thesis unfolding eq by (rule main)
qed

lemma stopAll_all_stopped:
  assumes "\<And>i a. \<exists>d. success_and_data (fst (apiClient_stopSession P net (ws_id ws) i a)) = Some d
              \<and> sess_id d = i \<and> sess_status d \<noteq> running"
  shows "\<forall>y \<in> set (sessions (fst (handleStopAll P net (Some ws) (s, app)))). sess_status y \<noteq> running"
proof -
  have "\<forall>y \<in> set (sessions s). sess_status y = running
          \<longrightarrow> sess_id y \<in> sess_id ` set (filter (\<lambda>session. sess_status session = running) (sessions s))"
    by simp
  then have main: "\<forall>y \<in> set (sessions (fst (forEach_session (apiClient_stopSession P net (ws_id ws))
                  (filter (\<lambda>session. sess_status session = running) (sessions s)) (s, app)))).
               sess_status y \<noteq> running"
    by (rule forEach_session_all_started [OF assms])
  have eq: "handleStopAll P net (Some ws) (s, app)
          = forEach_session (apiClient_stopSession P net (ws_id ws))
              (filter (\<lambda>session. sess_status session = running) (sessions s)) (s, app)"
    by (simp add: handleStopAll_def)
  show ?thesis unfolding eq by (rule main)
qed

lemma forEach_session_all_fail:
  assumes "\<And>i a. success_and_data (fst (call i a)) = None"
  shows "fst (forEach_session call xs (s, app)) = s"
proof (induction xs arbitrary: app)
  case Nil
  then show ?case by simp
next
  case (Cons x xs)
  obtain resp app' where c: "call (sess_id x) app = (resp, app')"
    by (cases "call (sess_id x) app")
  have "success_and_data resp = None" using assms [of "sess_id x" app] c by simp
  then have "forEach_session call (x # xs) (s, app) = forEach_session call xs (s, app')"
    using c by simp
  then show ?case using Cons.IH [of app'] by simp
qed

lemma calls_in_order_length: "length (fst (calls_in_order call xs app)) = length xs"
proof (induction xs arbitrary: app)
  case Nil
  then show ?case by simp
next
  case (Cons x xs)
  obtain resp app' where c: "call (sess_id x) app = (resp, app')"
    by (cases "call (sess_id x) app")
  show ?case using c Cons.IH [of app']
    by (cases "calls_in_order call xs app'") simp
qed

lemma sessions_update_same: "(s :: SessionManagerState)\<lparr>sessions := sessions s\<rparr> = s"
  by (cases s) simp

lemma forEach_session_fold:
  "forEach_session call xs (s, app)
     = (s\<lparr>sessions := foldl apply_response (sessions s) (fst (calls_in_order call xs app))\<rparr>,
        snd (calls_in_order call xs app))"
proof (induction xs arbitrary: s app)
  case Nil
  then show ?case by (simp add: sessions_update_same)
next
  case (Cons x xs)
  obtain resp app' where c: "call (sess_id x) app = (resp, app')"
    by (cases "call (sess_id x) app")
  define s' where "s' = (case success_and_data resp of Some d \<Rightarrow> handleSessionUpdated d s | None \<Rightarrow> s)"
  have s': "s' = s\<lparr>sessions := apply_response (sessions s) resp\<rparr>"
    by (cases "success_and_data resp")
       (simp_all add: s'_def apply_response_def handleSessionUpdated_def sessions_update_same)
  have "forEach_session call (x # xs) (s, app) = forEach_session call xs (s', app')"
    using c by (simp add: s'_def)
  also have "\<dots> = (s'\<lparr>sessions := foldl apply_response (sessions s') (fst (calls_in_order call xs app'))\<rparr>,
        snd (calls_in_order call xs app'))"
    by (rule Cons.IH)
  also have "\<dots> = (s\<lparr>sessions := foldl apply_response (sessions s) (fst (calls_in_order call (x # xs) app))\<rparr>,
        snd (calls_in_order call (x # xs) app))"
    using c by (simp add: s' split: prod.splits)
  finally show ?case .
qed

lemma handleStartAll_fold:
  "handleStartAll P net (Some ws) (s, app)
     = (s\<lparr>sessions := foldl apply_response (sessions s)
            (fst (calls_in_order (apiClient_startSession P net (ws_id ws))
                    (filter (\<lambda>x. sess_status x = stopped) (sessions s)) app))\<rparr>,
        snd (calls_in_order (apiClient_startSession P net (ws_id ws))
               (filter (\<lambda>x. sess_status x = stopped) (sessions s)) app))"
  by (simp add: handleStartAll_def forEach_session_fold)

lemma handleStopAll_fold:
  "handleStopAll P net (Some ws) (s, app)
     = (s\<lparr>sessions := foldl apply_response (sessions s)
            (fst (calls_in_order (apiClient_stopSession P net (ws_id ws))
                    (filter (\<lambda>x. sess_status x = running) (sessions s)) app))\<rparr>,
        snd (calls_in_order (apiClient_stopSession P net (ws_id ws))
               (filter (\<lambda>x. sess_status x = running) (sessions s)) app))"
  by (simp add: handleStopAll_def forEach_session_fold)

text \<open>
  C7. With a workspace selected, \<open>handleStartAll\<close> sends exactly the start requests of
  the sessions whose status is \<^verbatim>\<open>stopped\<close>, one each, in list order, whatever the answers
  are (a failed call does not stop the loop); \<open>handleStopAll\<close> does the same with the
  stop requests of the \<^verbatim>\<open>running\<close> sessions. The result of each handler is the component
  state with its collection folded over the answers of these calls in order, each
  successful answer replacing the elements that have the id of the returned session, and
  the application state after the last call; there is one answer per matching session.
  Both leave the ids of the local collection as they were, position by position. When
  every start call succeeds with the session asked for, now \<^verbatim>\<open>running\<close>, no session is
  \<^verbatim>\<open>stopped\<close> after \<open>handleStartAll\<close>, and likewise no session is \<^verbatim>\<open>running\<close> after
  \<open>handleStopAll\<close> when every stop call succeeds; when every call fails the component
  state is unchanged. When every session is \<^verbatim>\<open>running\<close>, \<open>handleStartAll\<close> changes nothing
  and sends nothing. The mock backend answers a start call for a stopped session it holds
  with that session, its status \<^verbatim>\<open>running\<close>.
\<close>

theorem startAll_calls:
  "(\<exists>new. sent (snd (handleStartAll P net (Some ws) (s, app))) = sent app @ new
        \<and> requests_of new = map (start_request (ws_id ws)) (filter (\<lambda>x. sess_status x = stopped) (sessions s)))
   \<and> (\<exists>new. sent (snd (handleStopAll P net (Some ws) (s, app))) = sent app @ new
        \<and> requests_of new = map (stop_request (ws_id ws)) (filter (\<lambda>x. sess_status x = running) (sessions s)))
   \<and> handleStartAll P net (Some ws) (s, app)
       = (s\<lparr>sessions := foldl apply_response (sessions s)
              (fst (calls_in_order (apiClient_startSession P net (ws_id ws))
                      (filter (\<lambda>x. sess_status x = stopped) (sessions s)) app))\<rparr>,
          snd (calls_in_order (apiClient_startSession P net (ws_id ws))
                 (filter (\<lambda>x. sess_status x = stopped) (sessions s)) app))
   \<and> handleStopAll P net (Some ws) (s, app)
       = (s\<lparr>sessions := foldl apply_response (sessions s)
              (fst (calls_in_order (apiClient_stopSession P net (ws_id ws))
                      (filter (\<lambda>x. sess_status x = running) (sessions s)) app))\<rparr>,
          snd (calls_in_order (apiClient_stopSession P net (ws_id ws))
                 (filter (\<lambda>x. sess_status x = running) (sessions s)) app))
   \<and> length (fst (calls_in_order (apiClient_startSession P net (ws_id ws))
                      (filter (\<lambda>x. sess_status x = stopped) (sessions s)) app))
       = length (filter (\<lambda>x. sess_status x = stopped) (sessions s))
   \<and> length (fst (calls_in_order (apiClient_stopSession P net (ws_id ws))
                      (filter (\<lambda>x. sess_status x = running) (sessions s)) app))
       = length (filter (\<lambda>x. sess_status x = running) (sessions s))
   \<and> map sess_id (sessions (fst (handleStartAll P net (Some ws) (s, app)))) = map sess_id (sessions s)
   \<and> map sess_id (sessions (fst (handleStopAll P net (Some ws) (s, app)))) = map sess_id (sessions s)
   \<and> ((\<forall>i a. \<exists>d. success_and_data (fst (apiClient_startSession P net (ws_id ws) i a)) = Some d
                 \<and> sess_id d = i \<and> sess_status d = running)
        \<longrightarrow> (\<forall>y \<in> set (sessions (fst (handleStartAll P net (Some ws) (s, app)))). sess_status y \<noteq> stopped))
   \<and> ((\<forall>i a. \<exists>d. success_and_data (fst (apiClient_stopSession P net (ws_id ws) i a)) = Some d
                 \<and> sess_id d = i \<and> sess_status d = stopped)
        \<longrightarrow> (\<forall>y \<in> set (sessions (fst (handleStopAll P net (Some ws) (s, app)))). sess_status y \<noteq> running))
   \<and> ((\<forall>i a. success_and_data (fst (apiClient_startSession P net (ws_id ws) i a)) = None)
        \<longrightarrow> fst (handleStartAll P net (Some ws) (s, app)) = s)
   \<and> ((\<forall>i a. success_and_data (fst (apiClient_stopSession P net (ws_id ws) i a)) = None)
        \<longrightarrow> fst (handleStopAll P net (Some ws) (s, app)) = s)
   \<and> ((\<forall>y \<in> set (sessions s). sess_status y = running)
        \<longrightarrow> handleStartAll P net (Some ws) (s, app) = (s, app))
   \<and> (mock_sessions srv wid = Some l \<and> find (\<lambda>y. sess_id y = sid) l = Some y \<and> sess_status y = stopped
        \<longrightarrow> (\<exists>y'. fst (mock_post_session_start toISO now wid sid srv) = Resolved (Some y')
                 \<and> sess_id y' = sid \<and> sess_status y' = running))"
proof -
  have a: "\<exists>new. sent (snd (handleStartAll P net (Some ws) (s, app))) = sent app @ new
        \<and> requests_of new = map (start_request (ws_id ws)) (filter (\<lambda>x. sess_status x = stopped) (sessions s))"
    using forEach_session_sent [of "apiClient_startSession P net (ws_id ws)"
        "\<lambda>i. (POST, Some (''/workspaces/'' @ ws_id ws @ ''/sessions/'' @ i @ ''/start''))"
        "filter (\<lambda>x. sess_status x = stopped) (sessions s)" s app, OF startSession_sent]
    by (simp add: handleStartAll_def start_request_fun)
  have b: "\<exists>new. sent (snd (handleStopAll P net (Some ws) (s, app))) = sent app @ new
        \<and> requests_of new = map (stop_request (ws_id ws)) (filter (\<lambda>x. sess_status x = running) (sessions s))"
    using forEach_session_sent [of "apiClient_stopSession P net (ws_id ws)"
        "\<lambda>i. (POST, Some (''/workspaces/'' @ ws_id ws @ ''/sessions/'' @ i @ ''/stop''))"
        "filter (\<lambda>x. sess_status x = running) (sessions s)" s app, OF stopSession_sent]
    by (simp add: handleStopAll_def stop_request_fun)
  note c = handleStartAll_fold [of P net ws s app]
  note d = handleStopAll_fold [of P net ws s app]
  note e1 = calls_in_order_length [of "apiClient_startSession P net (ws_id ws)"
      "filter (\<lambda>x. sess_status x = stopped) (sessions s)" app]
  note e2 = calls_in_order_length [of "apiClient_stopSession P net (ws_id ws)"
      "filter (\<lambda>x. sess_status x = running) (sessions s)" app]
  have f1: "map sess_id (sessions (fst (handleStartAll P net (Some ws) (s, app)))) = map sess_id (sessions s)"
    by (simp add: handleStartAll_def forEach_session_ids)
  have f2: "map sess_id (sessions (fst (handleStopAll P net (Some ws) (s, app)))) = map sess_id (sessions s)"
    by (simp add: handleStopAll_def forEach_session_ids)
  have g1: "(\<forall>i a. \<exists>d. success_and_data (fst (apiClient_startSession P net (ws_id ws) i a)) = Some d
                 \<and> sess_id d = i \<and> sess_status d = running)
        \<longrightarrow> (\<forall>y \<in> set (sessions (fst (handleStartAll P net (Some ws) (s, app)))). sess_status y \<noteq> stopped)"
  proof
    assume h: "\<forall>i a. \<exists>d. success_and_data (fst (apiClient_startSession P net (ws_id ws) i a)) = Some d
                 \<and> sess_id d = i \<and> sess_status d = running"
    have "\<And>i a. \<exists>d. success_and_data (fst (apiClient_startSession P net (ws_id ws) i a)) = Some d
              \<and> sess_id d = i \<and> sess_status d \<noteq> stopped"
    proof -
      fix i a
      from h obtain d where "success_and_data (fst (apiClient_startSession P net (ws_id ws) i a)) = Some d"
        "sess_id d = i" "sess_status d = running" by blast
      then show "\<exists>d. success_and_data (fst (apiClient_startSession P net (ws_id ws) i a)) = Some d
              \<and> sess_id d = i \<and> sess_status d \<noteq> stopped" by auto
    qed
    then show "\<forall>y \<in> set (sessions (fst (handleStartAll P net (Some ws) (s, app)))). sess_status y \<noteq> stopped"
      by (rule startAll_all_started)
  qed
  have g2: "(\<forall>i a. \<exists>d. success_and_data (fst (apiClient_stopSession P net (ws_id ws) i a)) = Some d
                 \<and> sess_id d = i \<and> sess_status d = stopped)
        \<longrightarrow> (\<forall>y \<in> set (sessions (fst (handleStopAll P net (Some ws) (s, app)))). sess_status y \<noteq> running)"
  proof
    assume h: "\<forall>i a. \<exists>d. success_and_data (fst (apiClient_stopSession P net (ws_id ws) i a)) = Some d
                 \<and> sess_id d = i \<and> sess_status d = stopped"
    have "\<And>i a. \<exists>d. success_and_data (fst (apiClient_stopSession P net (ws_id ws) i a)) = Some d
              \<and> sess_id d = i \<and> sess_status d \<noteq> running"
    proof -
      fix i a
      from h obtain d where "success_and_data (fst (apiClient_stopSession P net (ws_id ws) i a)) = Some d"
        "sess_id d = i" "sess_status d = stopped" by blast
      then show "\<exists>d. success_and_data (fst (apiClient_stopSession P net (ws_id ws) i a)) = Some d
              \<and> sess_id d = i \<and> sess_status d \<noteq> running" by auto
    qed
    then show "\<forall>y \<in> set (sessions (fst (handleStopAll P net (Some ws) (s, app)))). sess_status y \<noteq> running"
      by (rule stopAll_all_stopped)
  qed
  have h1: "(\<forall>i a. success_and_data (fst (apiClient_startSession P net (ws_id ws) i a)) = None)
        \<longrightarrow> fst (handleStartAll P net (Some ws) (s, app)) = s"
    by (simp add: handleStartAll_def forEach_session_all_fail)
  have h2: "(\<forall>i a. success_and_data (fst (apiClient_stopSession P net (ws_id ws) i a)) = None)
        \<longrightarrow> fst (handleStopAll P net (Some ws) (s, app)) = s"
    by (simp add: handleStopAll_def forEach_session_all_fail)
  have k: "(\<forall>y \<in> set (sessions s). sess_status y = running)
        \<longrightarrow> handleStartAll P net (Some ws) (s, app) = (s, app)"
  proof
    assume "\<forall>y \<in> set (sessions s). sess_status y = running"
    then have "filter (\<lambda>x. sess_status x = stopped) (sessions s) = []"
      by (auto simp: filter_empty_conv)
    then show "handleStartAll P net (Some ws) (s, app) = (s, app)"
      by (simp add: handleStartAll_def)
  qed
  have m: "mock_sessions srv wid = Some l \<and> find (\<lambda>y. sess_id y = sid) l = Some y \<and> sess_status y = stopped
        \<longrightarrow> (\<exists>y'. fst (mock_post_session_start toISO now wid sid srv) = Resolved (Some y')
                 \<and> sess_id y' = sid \<and> sess_status y' = running)"
    using mock_start_running [of srv wid l sid y toISO now] find_Some_id [of sid l y] by auto
  from a b c d e1 e2 f1 f2 g1 g2 h1 h2 k m show ?thesis by (intro conjI)
qed

theorem startAll_calls_witness:
  "requests_of (sent (snd (handleStartAll sample_Platform
        (net_always (Resolved (Some (session_2\<lparr>sess_status := running\<rparr>)))) (Some workspace_1)
        (sample_SessionManager, sample_App valid_Cookies authenticated_State 1600000000000))))
     = [(POST, Some ''/workspaces/ws-1/sessions/sess-2/start'')]
   \<and> sessions (fst (handleStartAll sample_Platform
        (net_always (Resolved (Some (session_2\<lparr>sess_status := running\<rparr>)))) (Some workspace_1)
        (sample_SessionManager, sample_App valid_Cookies authenticated_State 1600000000000)))
     = [session_1, session_2\<lparr>sess_status := running\<rparr>]
   \<and> requests_of (sent (snd (handleStopAll sample_Platform
        (net_always (Resolved (Some (session_1\<lparr>sess_status := stopped\<rparr>)))) (Some workspace_1)
        (sample_SessionManager, sample_App valid_Cookies authenticated_State 1600000000000))))
     = [(POST, Some ''/workspaces/ws-1/sessions/sess-1/stop'')]
   \<and> sessions (fst (handleStopAll sample_Platform
        (net_always (Resolved (Some (session_1\<lparr>sess_status := stopped\<rparr>)))) (Some workspace_1)
        (sample_SessionManager, sample_App valid_Cookies authenticated_State 1600000000000)))
     = [session_1\<lparr>sess_status := stopped\<rparr>, session_2]
   \<and> requests_of (sent (snd (handleStopAll sample_Platform
        (net_always (Rejected network_error)) (Some workspace_1)
        (sample_SessionManager, sample_App valid_Cookies authenticated_State 1600000000000))))
     = [(POST, Some ''/workspaces/ws-1/sessions/sess-1/stop'')]
   \<and> sessions (fst (handleStopAll sample_Platform
        (net_always (Rejected network_error)) (Some workspace_1)
        (sample_SessionManager, sample_App valid_Cookies authenticated_State 1600000000000)))
     = [session_1, session_2]"
proof -
  have s1: "handleStartAll sample_Platform
        (net_always (Resolved (Some (session_2\<lparr>sess_status := running\<rparr>)))) (Some workspace_1)
        (sample_SessionManager, sample_App valid_Cookies authenticated_State 1600000000000)
     = (sample_SessionManager\<lparr>sessions := foldl apply_response (sessions sample_SessionManager)
              (fst (calls_in_order (apiClient_startSession sample_Platform
                      (net_always (Resolved (Some (session_2\<lparr>sess_status := running\<rparr>)))) (ws_id workspace_1))
                      (filter (\<lambda>x. sess_status x = stopped) (sessions sample_SessionManager))
                      (sample_App valid_Cookies authenticated_State 1600000000000)))\<rparr>,
          snd (calls_in_order (apiClient_startSession sample_Platform
                 (net_always (Resolved (Some (session_2\<lparr>sess_status := running\<rparr>)))) (ws_id workspace_1))
                 (filter (\<lambda>x. sess_status x = stopped) (sessions sample_SessionManager))
                 (sample_App valid_Cookies authenticated_State 1600000000000)))"
    by (rule startAll_calls [where P = sample_Platform and ws = workspace_1 and s = sample_SessionManager
      and net = "net_always (Resolved (Some (session_2\<lparr>sess_status := running\<rparr>)))"
      and app = "sample_App valid_Cookies authenticated_State 1600000000000",
      THEN conjunct2, THEN conjunct2, THEN conjunct1])
  have s2: "handleStopAll sample_Platform
        (net_always (Resolved (Some (session_1\<lparr>sess_status := stopped\<rparr>)))) (Some workspace_1)
        (sample_SessionManager, sample_App valid_Cookies authenticated_State 1600000000000)
     = (sample_SessionManager\<lparr>sessions := foldl apply_response (sessions sample_SessionManager)
              (fst (calls_in_order (apiClient_stopSession sample_Platform
                      (net_always (Resolved (Some (session_1\<lparr>sess_status := stopped\<rparr>)))) (ws_id workspace_1))
                      (filter (\<lambda>x. sess_status x = running) (sessions sample_SessionManager))
                      (sample_App valid_Cookies authenticated_State 1600000000000)))\<rparr>,
          snd (calls_in_order (apiClient_stopSession sample_Platform
                 (net_always (Resolved (Some (session_1\<lparr>sess_status := stopped\<rparr>)))) (ws_id workspace_1))
                 (filter (\<lambda>x. sess_status x = running) (sessions sample_SessionManager))
                 (sample_App valid_Cookies authenticated_State 1600000000000)))"
    by (rule startAll_calls [where P = sample_Platform and ws = workspace_1 and s = sample_SessionManager
      and net = "net_always (Resolved (Some (session_1\<lparr>sess_status := stopped\<rparr>)))"
      and app = "sample_App valid_Cookies authenticated_State 1600000000000",
      THEN conjunct2, THEN conjunct2, THEN conjunct2, THEN conjunct1])
  have s3: "handleStopAll sample_Platform
        (net_always (Rejected network_error)) (Some workspace_1)
        (sample_SessionManager, sample_App valid_Cookies authenticated_State 1600000000000)
     = (sample_SessionManager\<lparr>sessions := foldl apply_response (sessions sample_SessionManager)
              (fst (calls_in_order (apiClient_stopSession sample_Platform
                      (net_always (Rejected network_error)) (ws_id workspace_1))
                      (filter (\<lambda>x. sess_status x = running) (sessions sample_SessionManager))
                      (sample_App valid_Cookies authenticated_State 1600000000000)))\<rparr>,
          snd (calls_in_order (apiClient_stopSession sample_Platform
                 (net_always (Rejected network_error)) (ws_id workspace_1))
                 (filter (\<lambda>x. sess_status x = running) (sessions sample_SessionManager))
                 (sample_App valid_Cookies authenticated_State 1600000000000)))"
    by (rule startAll_calls [where P = sample_Platform and ws = workspace_1 and s = sample_SessionManager
      and net = "net_always (Rejected network_error)"
      and app = "sample_App valid_Cookies authenticated_State 1600000000000",
      THEN conjunct2, THEN conjunct2, THEN conjunct2, THEN conjunct1])
  show ?thesis
    unfolding s1 s2 s3
    by (simp add: sample_SessionManager_def session_1_def session_2_def
      workspace_1_def apiClient_startSession_def apiClient_stopSession_def request_def
      request_interceptor_def isPublicEndpoint_def publicEndpoints_def TokenManager_getAuthHeader_def
      TokenManager_getToken_def valid_Cookies_def sample_Date_def date_le_def truthy_def sample_App_def
      sample_Platform_def net_always_def success_and_data_def apply_response_def requests_of_def
      response_error_interceptor_def network_error_def transformError_def)
qed

section \<open>Creating and deleting a workspace\<close>

lemma createWorkspace_data:
  "success_and_data (fst (apiClient_createWorkspace P net nm descr app))
     = (case settles P net POST ''/workspaces'' (Some (WorkspaceBody nm descr)) app of
          Resolved d \<Rightarrow> d | Rejected err \<Rightarrow> None)"
  by (simp add: apiClient_createWorkspace_def request_success_and_data)

lemma deleteWorkspace_success:
  "success (fst (apiClient_deleteWorkspace P net wid app))
     = (case settles P net DELETE (''/workspaces/'' @ wid) None app of
          Resolved d \<Rightarrow> True | Rejected err \<Rightarrow> False)"
  by (cases "settles P net DELETE (''/workspaces/'' @ wid) None app")
     (simp_all add: apiClient_deleteWorkspace_def request_Resolved request_Rejected transformError_fields)

text \<open>
  C8. When the form is valid and the create call resolves with an entity, the list after
  \<open>handleSubmit\<close> is the list before it with that entity appended; when the form is not valid
  or the call does not resolve with an entity, the list is unchanged. When the user
  confirms and the delete call resolves, the list after \<open>handleDelete\<close> is the list before it
  without the entries of that id; when the user does not confirm or the call is rejected,
  the list is unchanged. The entity the mock backend returns carries the id and the
  timestamps the server made.
\<close>

theorem workspace_list_create_delete:
  "(fst (validateForm P m)
      \<and> settles P net POST ''/workspaces'' (Some (submitted_body P m)) app = Resolved (Some d)
     \<longrightarrow> workspaces (fst (snd (CreateWorkspaceModal_handleSubmit P net (m, wl, app)))) = workspaces wl @ [d])
   \<and> (\<not> fst (validateForm P m)
      \<or> (\<forall>x. settles P net POST ''/workspaces'' (Some (submitted_body P m)) app \<noteq> Resolved (Some x))
     \<longrightarrow> workspaces (fst (snd (CreateWorkspaceModal_handleSubmit P net (m, wl, app)))) = workspaces wl)
   \<and> (confirmed \<and> settles P net_del DELETE (''/workspaces/'' @ ws_id w) None app = Resolved u
     \<longrightarrow> workspaces (fst (snd (WorkspaceCard_handleDelete P net_del confirmed w (crd, wl, app))))
           = filter (\<lambda>x. ws_id x \<noteq> ws_id w) (workspaces wl)
         \<and> (\<forall>x \<in> set (workspaces (fst (snd (WorkspaceCard_handleDelete P net_del confirmed w (crd, wl, app))))).
               ws_id x \<noteq> ws_id w))
   \<and> (\<not> confirmed \<or> settles P net_del DELETE (''/workspaces/'' @ ws_id w) None app = Rejected err
     \<longrightarrow> workspaces (fst (snd (WorkspaceCard_handleDelete P net_del confirmed w (crd, wl, app)))) = workspaces wl)
   \<and> fst (mock_post_workspaces toISO t_id t_created t_updated nm descr srv)
       = Resolved (Some \<lparr>ws_id = ''ws-'' @ toString_nat (nat t_id), ws_name = nm, ws_description = descr,
                         ws_created_at = toISO t_created, ws_updated_at = toISO t_updated\<rparr>)"
proof -
  have a: "fst (validateForm P m)
      \<and> settles P net POST ''/workspaces'' (Some (submitted_body P m)) app = Resolved (Some d)
     \<longrightarrow> workspaces (fst (snd (CreateWorkspaceModal_handleSubmit P net (m, wl, app)))) = workspaces wl @ [d]"
    using createWorkspace_data [of P net "String_trim P (formData_name m)"
        "if String_trim P (formData_description m) \<noteq> [] then Some (String_trim P (formData_description m)) else None" app]
    by (cases "validateForm P m";
        cases "apiClient_createWorkspace P net (String_trim P (formData_name m))
          (if String_trim P (formData_description m) \<noteq> [] then Some (String_trim P (formData_description m)) else None) app")
       (auto simp: CreateWorkspaceModal_handleSubmit_def submitted_body_def handleWorkspaceCreated_def)
  have b: "\<not> fst (validateForm P m)
      \<or> (\<forall>x. settles P net POST ''/workspaces'' (Some (submitted_body P m)) app \<noteq> Resolved (Some x))
     \<longrightarrow> workspaces (fst (snd (CreateWorkspaceModal_handleSubmit P net (m, wl, app)))) = workspaces wl"
    using createWorkspace_data [of P net "String_trim P (formData_name m)"
        "if String_trim P (formData_description m) \<noteq> [] then Some (String_trim P (formData_description m)) else None" app]
    by (cases "validateForm P m";
        cases "apiClient_createWorkspace P net (String_trim P (formData_name m))
          (if String_trim P (formData_description m) \<noteq> [] then Some (String_trim P (formData_description m)) else None) app";
        cases "settles P net POST ''/workspaces'' (Some (submitted_body P m)) app")
       (auto simp: CreateWorkspaceModal_handleSubmit_def submitted_body_def handleWorkspaceCreated_def
          split: option.splits)
  have c: "confirmed \<and> settles P net_del DELETE (''/workspaces/'' @ ws_id w) None app = Resolved u
     \<longrightarrow> workspaces (fst (snd (WorkspaceCard_handleDelete P net_del confirmed w (crd, wl, app))))
           = filter (\<lambda>x. ws_id x \<noteq> ws_id w) (workspaces wl)
         \<and> (\<forall>x \<in> set (workspaces (fst (snd (WorkspaceCard_handleDelete P net_del confirmed w (crd, wl, app))))).
               ws_id x \<noteq> ws_id w)"
    using deleteWorkspace_success [of P net_del "ws_id w" app]
    by (cases "apiClient_deleteWorkspace P net_del (ws_id w) app")
       (auto simp: WorkspaceCard_handleDelete_def handleWorkspaceDeleted_def)
  have d: "\<not> confirmed \<or> settles P net_del DELETE (''/workspaces/'' @ ws_id w) None app = Rejected err
     \<longrightarrow> workspaces (fst (snd (WorkspaceCard_handleDelete P net_del confirmed w (crd, wl, app)))) = workspaces wl"
    using deleteWorkspace_success [of P net_del "ws_id w" app]
    by (cases "apiClient_deleteWorkspace P net_del (ws_id w) app")
       (auto simp: WorkspaceCard_handleDelete_def handleWorkspaceDeleted_def)
  have e: "fst (mock_post_workspaces toISO t_id t_created t_updated nm descr srv)
       = Resolved (Some \<lparr>ws_id = ''ws-'' @ toString_nat (nat t_id), ws_name = nm, ws_description = descr,
                         ws_created_at = toISO t_created, ws_updated_at = toISO t_updated\<rparr>)"
    by (simp add: mock_post_workspaces_def Let_def)
  from a b c d e show ?thesis by blast
qed

theorem workspace_list_create_delete_witness:
  "workspaces (fst (snd (CreateWorkspaceModal_handleSubmit mock_Platform (mock_net_workspaces sample_toISO)
           (dev_form, sample_WorkspaceList,
            sample_App valid_Cookies authenticated_State (mock_initial, 1600000000000)))))
     = [workspace_1, workspace_2,
        \<lparr>ws_id = ''ws-1600000000000'', ws_name = ''Dev'', ws_description = None,
         ws_created_at = ''2020-09-13T12:26:40.000Z'', ws_updated_at = ''2020-09-13T12:26:40.000Z''\<rparr>]
   \<and> workspaces (fst (snd (WorkspaceCard_handleDelete sample_Platform (net_always (Resolved (Some ()))) True
           workspace_1 (\<lparr>showMenu = True, isDeleting = False\<rparr>, sample_WorkspaceList,
            sample_App valid_Cookies authenticated_State 1600000000000))))
     = [workspace_2]"
  using workspace_list_create_delete [where P = mock_Platform and m = dev_form
      and net = "mock_net_workspaces sample_toISO" and wl = sample_WorkspaceList
      and app = "sample_App valid_Cookies authenticated_State (mock_initial, 1600000000000)"
      and d = "\<lparr>ws_id = ''ws-1600000000000'', ws_name = ''Dev'', ws_description = None,
         ws_created_at = ''2020-09-13T12:26:40.000Z'', ws_updated_at = ''2020-09-13T12:26:40.000Z''\<rparr>"
      and confirmed = False]
    workspace_list_create_delete [where P = sample_Platform and confirmed = True
      and net_del = "net_always (Resolved (Some ()))" and w = workspace_1 and u = "Some ()"
      and crd = "\<lparr>showMenu = True, isDeleting = False\<rparr>" and wl = sample_WorkspaceList
      and app = "sample_App valid_Cookies authenticated_State 1600000000000"]
  by (simp add: validateForm_def mock_Platform_def sample_trim_def
      dev_form_def settles_def request_interceptor_def isPublicEndpoint_def
      publicEndpoints_def TokenManager_getAuthHeader_def TokenManager_getToken_def valid_Cookies_def
      sample_Date_def date_le_def truthy_def sample_App_def mock_net_workspaces_def
      mock_post_workspaces_def Let_def submitted_body_def sample_Platform_def net_always_def
      sample_WorkspaceList_def digit_char_def sample_toISO_def workspace_1_def workspace_2_def)

end
